theory Spec2Isabelle
  imports Complex_Main "HOL-Library.Sublist" "HOL-Library.Log_Nat"
begin

section \<open>float64 arithmetic and decimal formatting\<close>

text \<open>
  A finite \<^verbatim>\<open>float64\<close> is modelled by the rational number it denotes. Every arithmetic
  operation of Go on \<^verbatim>\<open>float64\<close> is the exact operation followed by rounding to the
  nearest double, ties to even (IEEE 754 binary64: 53 significant bits, least exponent
  \<open>-1074\<close>). Not modelled: overflow to an infinity (the result would be \<open>2 ^ 1024\<close> or
  more), NaN, and fused multiply-add (the model rounds after every operation, as the
  amd64 compiler does). A negative zero is the number 0: Go prints it with a minus sign,
  which the functions modelled here either drop or read back as 0.
\<close>

type_synonym float64 = rat

definition pow2 :: "int \<Rightarrow> rat" where
  "pow2 k = (if 0 \<le> k then 2 ^ nat k else 1 / 2 ^ nat (- k))"

definition round_half_even :: "rat \<Rightarrow> int" where
  "round_half_even x =
     (let f = \<lfloor>x\<rfloor>; d = x - of_int f
      in if d < 1 / 2 then f else if 1 / 2 < d then f + 1 else if even f then f else f + 1)"

text \<open>
  The binary exponent \<open>\<lfloor>log\<^sub>2 \<bar>x\<bar>\<rfloor>\<close> of a rational \<open>x \<noteq> 0\<close>, from the bit lengths of its
  numerator and denominator.
\<close>

definition exponent_of :: "rat \<Rightarrow> int" where
  "exponent_of x =
     (let (p, q) = quotient_of \<bar>x\<bar>;
          k = bitlen p - bitlen q
      in if pow2 k \<le> \<bar>x\<bar> then k else k - 1)"

text \<open>Rounding a rational to the nearest double.\<close>

definition f64 :: "rat \<Rightarrow> float64" where
  "f64 x =
     (if x = 0 then 0
      else (let q = max (exponent_of x - 52) (- 1074)
            in of_int (round_half_even (x / pow2 q)) * pow2 q))"

definition f64_mul :: "float64 \<Rightarrow> float64 \<Rightarrow> float64" where
  "f64_mul a b = f64 (a * b)"

definition f64_add :: "float64 \<Rightarrow> float64 \<Rightarrow> float64" where
  "f64_add a b = f64 (a + b)"


text \<open>Division; the divisor is not zero wherever the modelled code divides.\<close>

definition f64_div :: "float64 \<Rightarrow> float64 \<Rightarrow> float64" where
  "f64_div a b = f64 (a / b)"

text \<open>
  The conversions \<^verbatim>\<open>int(x)\<close> (truncation toward zero; the value must fit 64 bits) and
  \<^verbatim>\<open>float64(n)\<close>.
\<close>

definition go_int :: "float64 \<Rightarrow> int" where
  "go_int x = (if 0 \<le> x then \<lfloor>x\<rfloor> else - \<lfloor>- x\<rfloor>)"

definition go_float64 :: "int \<Rightarrow> float64" where
  "go_float64 n = f64 (of_int n)"

text \<open>Decimal digits.\<close>

definition digit_char :: "int \<Rightarrow> char" where
  "digit_char d = ''0123456789'' ! nat d"

definition digit_val :: "char \<Rightarrow> int option" where
  "digit_val c = map_of (zip ''0123456789'' [0, 1, 2, 3, 4, 5, 6, 7, 8, 9]) c"

function digits_of :: "int \<Rightarrow> string" where
  "digits_of n =
     (if n < 10 then [digit_char n] else digits_of (n div 10) @ [digit_char (n mod 10)])"
  by pat_completeness auto
termination
  by (relation "measure nat") auto

declare digits_of.simps [simp del]

text \<open>\<^verbatim>\<open>%d\<close> of \<^verbatim>\<open>fmt.Sprintf\<close>, \<^verbatim>\<open>strconv.Itoa\<close> and \<^verbatim>\<open>big.Int.String\<close>.\<close>

definition fmt_d :: "int \<Rightarrow> string" where
  "fmt_d i = (if i < 0 then CHR ''-'' # digits_of (- i) else digits_of i)"

definition pad_left :: "nat \<Rightarrow> string \<Rightarrow> string" where
  "pad_left n s = replicate (n - length s) CHR ''0'' @ s"

text \<open>
  \<^verbatim>\<open>fmt.Sprintf("%.Nf", x)\<close> for \<open>N > 0\<close>: the exact value of the double rounded to \<open>N\<close>
  decimals, ties to even, printed as sign, integer digits, point and \<open>N\<close> fraction digits.
\<close>

definition fmt_f :: "nat \<Rightarrow> float64 \<Rightarrow> string" where
  "fmt_f prec x =
     (let n = round_half_even (\<bar>x\<bar> * 10 ^ prec)
      in (if x < 0 then ''-'' else []) @ digits_of (n div 10 ^ prec) @
         CHR ''.'' # pad_left prec (digits_of (n mod 10 ^ prec)))"

text \<open>\<^verbatim>\<open>strings.Split(s, sep)\<close> for a separator of one character.\<close>

fun split_on :: "char \<Rightarrow> string \<Rightarrow> string list" where
  "split_on c [] = [[]]"
| "split_on c (x # xs) =
     (if x = c then [] # split_on c xs
      else (case split_on c xs of p # ps \<Rightarrow> (x # p) # ps | [] \<Rightarrow> [[x]]))"

text \<open>\<^verbatim>\<open>strings.TrimRight(s, "0")\<close>.\<close>

definition trim_right_zeros :: "string \<Rightarrow> string" where
  "trim_right_zeros s = rev (dropWhile (\<lambda>c. c = CHR ''0'') (rev s))"

text \<open>
  \<^verbatim>\<open>SetString(s, 10)\<close> of \<^verbatim>\<open>big.Int\<close>: an optional sign and at least one decimal digit, the
  whole string consumed; \<open>None\<close> when the call reports failure.
\<close>

fun parse_digits :: "int \<Rightarrow> string \<Rightarrow> int option" where
  "parse_digits acc [] = Some acc"
| "parse_digits acc (c # cs) =
     (case digit_val c of None \<Rightarrow> None | Some d \<Rightarrow> parse_digits (acc * 10 + d) cs)"

definition parse_unsigned :: "string \<Rightarrow> int option" where
  "parse_unsigned s = (if s = [] then None else parse_digits 0 s)"

definition big_SetString :: "string \<Rightarrow> int option" where
  "big_SetString s =
     (case s of
        [] \<Rightarrow> None
      | c # cs \<Rightarrow>
          if c = CHR ''-'' then map_option uminus (parse_unsigned cs)
          else if c = CHR ''+'' then parse_unsigned cs
          else parse_unsigned s)"

section \<open>OrderBookStore: snapshots and price-change deltas\<close>

text \<open>
  The order book of the round switcher (\<^verbatim>\<open>type OrderBook struct\<close>): the asset id,
  the logical side label and two Go maps from price string to size string. The mutex is
  not part of the sequential state.
\<close>

record OrderBook =
  AssetID :: string
  Side :: string
  Bids :: "string \<rightharpoonup> string"
  Asks :: "string \<rightharpoonup> string"




definition NewOrderBook :: "string \<Rightarrow> string \<Rightarrow> OrderBook" where
  "NewOrderBook assetID side =
     \<lparr>AssetID = assetID, Side = side, Bids = Map.empty, Asks = Map.empty\<rparr>"







section \<open>StreamSession: closing a connection\<close>

text \<open>
  The part of \<^verbatim>\<open>wss.Connection\<close> that \<^verbatim>\<open>Close\<close> reads and writes. The socket, the
  heartbeat ticker and the reconnect timer are nilable pointers (\<open>None\<close> is \<^verbatim>\<open>nil\<close>; the
  number names the resource). \<^verbatim>\<open>stopCh\<close> is a Go channel that is only ever closed:
  its state is open or closed. The callbacks, the configuration and the subscription
  payload are not touched by \<^verbatim>\<open>Close\<close>.
\<close>

datatype chan_state = ChanOpen | ChanClosed

record Connection =
  conn :: "nat option"
  isConnected :: bool
  isIntentionalClose :: bool
  reconnectAttempts :: int
  pingTimer :: "nat option"
  reconnectTimer :: "nat option"
  stopCh :: chan_state

text \<open>A Go run-time panic, with the run-time's message.\<close>

datatype go_panic = Panic string

text \<open>
  \<^verbatim>\<open>NewConnection\<close>: every field has its zero value except
  \<^verbatim>\<open>stopCh: make(chan struct{})\<close>, a fresh open channel.
\<close>

definition NewConnection :: Connection where
  "NewConnection =
     \<lparr>conn = None, isConnected = False, isIntentionalClose = False, reconnectAttempts = 0,
      pingTimer = None, reconnectTimer = None, stopCh = ChanOpen\<rparr>"

text \<open>\<^verbatim>\<open>stopPing\<close>: \<^verbatim>\<open>if c.pingTimer != nil { c.pingTimer.Stop(); c.pingTimer = nil }\<close>.\<close>

definition stopPing :: "Connection \<Rightarrow> Connection" where
  "stopPing c = (if pingTimer c \<noteq> None then c\<lparr>pingTimer := None\<rparr> else c)"

definition stopReconnect :: "Connection \<Rightarrow> Connection" where
  "stopReconnect c = (if reconnectTimer c \<noteq> None then c\<lparr>reconnectTimer := None\<rparr> else c)"

text \<open>
  The built-in \<^verbatim>\<open>close(ch)\<close> of Go on a non-nil channel: closing a channel that is
  already closed is a run-time panic.
\<close>

definition go_close :: "chan_state \<Rightarrow> go_panic + chan_state" where
  "go_close ch = (case ch of ChanOpen \<Rightarrow> Inr ChanClosed
                  | ChanClosed \<Rightarrow> Inl (Panic ''close of closed channel''))"

text \<open>
  \<^verbatim>\<open>Connection.Close\<close>, statement by statement. The last statement,
  \<^verbatim>\<open>close(c.stopCh)\<close>, is the only one without a guard; when it panics the call does
  not return (nothing in the package recovers).
\<close>

definition Close :: "Connection \<Rightarrow> go_panic + Connection" where
  "Close c =
     (let c1 = c\<lparr>isIntentionalClose := True\<rparr>;
          c2 = stopPing c1;
          c3 = stopReconnect c2;
          c4 = (if conn c3 \<noteq> None then c3\<lparr>conn := None\<rparr> else c3);
          c5 = c4\<lparr>isConnected := False\<rparr>
      in case go_close (stopCh c5) of
           Inl p \<Rightarrow> Inl p
         | Inr ch \<Rightarrow> Inr (c5\<lparr>stopCh := ch\<rparr>))"

text \<open>The state every completed \<^verbatim>\<open>Close\<close> leaves behind.\<close>

definition closed_state :: "int \<Rightarrow> Connection" where
  "closed_state n =
     \<lparr>conn = None, isConnected = False, isIntentionalClose = True, reconnectAttempts = n,
      pingTimer = None, reconnectTimer = None, stopCh = ChanClosed\<rparr>"

section \<open>RoundScheduler: the start of the current round\<close>

text \<open>
  The wall clock \<^verbatim>\<open>now := time.Now().UTC()\<close> as \<^verbatim>\<open>calcCurrentRoundStart\<close> reads it:
  through the six accessors \<^verbatim>\<open>Year(), Month(), Day(), Hour(), Minute(), Second()\<close>.
\<close>

record clock =
  Year :: int
  Month :: int
  Day :: int
  Hour :: int
  Minute :: int
  Second :: int

text \<open>
  \<^verbatim>\<open>getPeriodDuration\<close>: a \<^verbatim>\<open>time.Duration\<close> is a number of nanoseconds. The package
  variable \<^verbatim>\<open>period\<close> is a parameter here. An unknown period falls through the switch to
  15 minutes.
\<close>

definition getPeriodDuration :: "string \<Rightarrow> int" where
  "getPeriodDuration period =
     (if period = ''15m'' then 15 * 60000000000
      else if period = ''1h'' then 3600000000000
      else if period = ''4h'' then 4 * 3600000000000
      else if period = ''daily'' then 24 * 3600000000000
      else 15 * 60000000000)"

text \<open>
  \<^verbatim>\<open>int(duration.Seconds())\<close>: the whole seconds of a duration (the four durations are
  whole numbers of seconds, so the float64 in between is exact).
\<close>

definition duration_Seconds :: "int \<Rightarrow> int" where
  "duration_Seconds d = d div 1000000000"

text \<open>
  \<^verbatim>\<open>time.Date\<close> of the Go library accepts fields outside their usual ranges and
  normalises them. Its helper \<^verbatim>\<open>norm(hi, lo, base)\<close> carries \<open>lo\<close> into \<open>hi\<close>:
  \<^verbatim>\<open>if lo < 0 { n := (-lo-1)/base + 1; hi -= n; lo += n*base }\<close>,
  \<^verbatim>\<open>if lo >= base { n := lo/base; hi += n; lo -= n*base }\<close>
  (both divisions are of non-negative numbers).
\<close>

definition norm_carry :: "int \<Rightarrow> int \<Rightarrow> int \<Rightarrow> int \<times> int" where
  "norm_carry hi lo base =
     (let (hi1, lo1) = (if lo < 0 then (let n = (- lo - 1) div base + 1 in (hi - n, lo + n * base))
                        else (hi, lo))
      in if lo1 \<ge> base then (let n = lo1 div base in (hi1 + n, lo1 - n * base))
         else (hi1, lo1))"

text \<open>The proleptic Gregorian calendar of \<^verbatim>\<open>time.Date\<close>.\<close>

definition isLeap :: "int \<Rightarrow> bool" where
  "isLeap year \<longleftrightarrow> year mod 4 = 0 \<and> (year mod 100 \<noteq> 0 \<or> year mod 400 = 0)"

definition daysBefore :: "int list" where
  "daysBefore = [0, 31, 59, 90, 120, 151, 181, 212, 243, 273, 304, 334, 365]"

text \<open>Days from 1970-01-01 to January 1st of the year (477 leap days precede 1970).\<close>

definition daysSinceEpoch :: "int \<Rightarrow> int" where
  "daysSinceEpoch year =
     365 * (year - 1970) + ((year - 1) div 4 - (year - 1) div 100 + (year - 1) div 400) - 477"

text \<open>
  \<^verbatim>\<open>time.Date(year, month, day, hour, min, sec, 0, time.UTC)\<close>: the instant, as seconds
  since 1970-01-01T00:00:00Z. The month is carried into the year, seconds into minutes,
  minutes into hours and hours into days, then the days are counted.
\<close>

definition time_Date :: "int \<Rightarrow> int \<Rightarrow> int \<Rightarrow> int \<Rightarrow> int \<Rightarrow> int \<Rightarrow> int" where
  "time_Date year month day hour minute sec =
     (let (year1, m) = norm_carry year (month - 1) 12;
          (min1, sec1) = norm_carry minute sec 60;
          (hour1, min2) = norm_carry hour min1 60;
          (day1, hour2) = norm_carry day hour1 24;
          d = daysSinceEpoch year1 + daysBefore ! nat m
                + (if isLeap year1 \<and> m + 1 \<ge> 3 then 1 else 0) + (day1 - 1)
      in d * 86400 + (hour2 * 3600 + min2 * 60 + sec1))"

text \<open>\<^verbatim>\<open>calcCurrentRoundStart\<close>, with the clock reading and the period as parameters.\<close>

definition calcCurrentRoundStart :: "string \<Rightarrow> clock \<Rightarrow> int" where
  "calcCurrentRoundStart period now =
     (let duration = getPeriodDuration period in
      if period = ''daily'' then time_Date (Year now) (Month now) (Day now) 0 0 0
      else
        (let periodSec = duration_Seconds duration;
             currentSec = Hour now * 3600 + Minute now * 60 + Second now;
             alignedSec = (currentSec div periodSec) * periodSec
         in time_Date (Year now) (Month now) (Day now) 0 0 alignedSec))"


text \<open>The ranges of the clock accessors of a Go \<^verbatim>\<open>time.Time\<close>.\<close>

definition valid_clock :: "clock \<Rightarrow> bool" where
  "valid_clock now \<longleftrightarrow> 0 \<le> Hour now \<and> Hour now < 24 \<and> 0 \<le> Minute now \<and> Minute now < 60
     \<and> 0 \<le> Second now \<and> Second now < 60"

text \<open>The instant the clock reading stands for.\<close>

definition time_of :: "clock \<Rightarrow> int" where
  "time_of now = time_Date (Year now) (Month now) (Day now) (Hour now) (Minute now) (Second now)"

text \<open>\<^verbatim>\<open>periodSec\<close> of \<^verbatim>\<open>calcCurrentRoundStart\<close>.\<close>

definition periodSec_of :: "string \<Rightarrow> int" where
  "periodSec_of period = duration_Seconds (getPeriodDuration period)"

section \<open>ExecutionEngine: the order loop of one account pair\<close>

text \<open>
  The fields of \<^verbatim>\<open>Config\<close> that the order loop of \<^verbatim>\<open>Strategy.Execute\<close> reads.
\<close>

record Config =
  MaxRetries :: int
  RetryDelaySec :: int

text \<open>
  \<^verbatim>\<open>Result\<close>, the record of one run. \<^verbatim>\<open>Duration\<close> is wall-clock time and is left out.
\<close>

record Result =
  Index :: int
  Success :: bool
  FilledA :: string
  FilledB :: string
  Error :: string

text \<open>The fields the loop reads of \<^verbatim>\<open>clob.OrderResponse\<close> and \<^verbatim>\<open>clob.OpenOrder\<close>.\<close>

record OrderResponse =
  OrderID :: string

record OpenOrder =
  SizeMatched :: string

text \<open>
  What the exchange and the market data answer during one attempt. A pointer result is
  \<open>None\<close> when the call returned \<^verbatim>\<open>nil\<close> with an error. The price and size arithmetic of
  an attempt (lines 276 to 302 of the strategy) decides two things, which are inputs here:
  whether the re-fetched spread is below \<^verbatim>\<open>MinSpreadTicks\<close>, and whether the aligned trade
  amount is below the tick size.
\<close>

record attempt_env =
  book_err :: bool
  spread_low :: bool
  amount_low :: bool
  postA :: "OrderResponse option"
  postB :: "OrderResponse option"
  getA :: "OpenOrder option"
  getB :: "OpenOrder option"

text \<open>The effects of the loop on the outside, in program order.\<close>

datatype leg = LegA | LegB

datatype event =
    EvSleep int
  | EvPost leg
  | EvGetOrder leg string
  | EvCancel leg string

text \<open>How a run ends: it returns its \<^verbatim>\<open>Result\<close>, or a run-time panic unwinds it.\<close>

datatype outcome =
    Returned Result "event list"
  | Panicked string "event list"

text \<open>How one pass through the loop body ends.\<close>

datatype step =
    Continue "event list"
  | Stop outcome

text \<open>\<^verbatim>\<open>Config.GetRetryDelay\<close>, in seconds.\<close>

definition GetRetryDelay :: "Config \<Rightarrow> int" where
  "GetRetryDelay c = (if RetryDelaySec c \<le> 0 then 3 else RetryDelaySec c)"

text \<open>
  The two error texts of the loop, as the UTF-8 bytes of the source's string literals:
  the text around \<^verbatim>\<open>%d\<close> in the retry-limit message, and the insufficient-balance
  message.
\<close>

definition retry_text_before :: string where
  "retry_text_before = map char_of
     [0xE8, 0xBE, 0xBE, 0xE5, 0x88, 0xB0, 0xE6, 0x9C, 0x80, 0xE5, 0xA4, 0xA7, 0xE9, 0x87, 0x8D,
      0xE8, 0xAF, 0x95, 0xE6, 0xAC, 0xA1, 0xE6, 0x95, 0xB0, 0x20 :: nat]"

definition retry_text_after :: string where
  "retry_text_after = map char_of
     [0xEF, 0xBC, 0x8C, 0xE6, 0x9C, 0xAA, 0xE8, 0x83, 0xBD, 0xE6, 0x88, 0x90, 0xE4, 0xBA, 0xA4 :: nat]"

definition insufficient_text :: string where
  "insufficient_text = map char_of
     [0xE4, 0xBD, 0x99, 0xE9, 0xA2, 0x9D, 0xE4, 0xB8, 0x8D, 0xE8, 0xB6, 0xB3 :: nat]"

definition retry_limit_error :: "Config \<Rightarrow> string" where
  "retry_limit_error cfg = retry_text_before @ fmt_d (MaxRetries cfg) @ retry_text_after"

text \<open>
  One pass through the body of the loop \<^verbatim>\<open>for attempt := 1; attempt <= MaxRetries; attempt++\<close>.
  \<open>pos s\<close> stands for \<^verbatim>\<open>parseFloat(s) > 0\<close> (\<^verbatim>\<open>strconv.ParseFloat\<close> of the library).
  Both submissions always run (two goroutines joined by the wait group). The slices
  \<^verbatim>\<open>orderA.OrderID[:16]\<close> and \<^verbatim>\<open>orderB.OrderID[:16]\<close> of the log line panic on a shorter id;
  the errors of \<^verbatim>\<open>GetOrder\<close> are dropped, so a failed poll is a nil dereference.
\<close>

definition attempt_body ::
  "Config \<Rightarrow> (string \<Rightarrow> bool) \<Rightarrow> attempt_env \<Rightarrow> int \<Rightarrow> Result \<Rightarrow> event list \<Rightarrow> step" where
  "attempt_body cfg pos e attempt result tr =
     (let tr1 = (if attempt > 1 then tr @ [EvSleep (GetRetryDelay cfg)] else tr) in
      if attempt > 1 \<and> book_err e then Continue tr1
      else if attempt > 1 \<and> spread_low e then Continue tr1
      else if amount_low e then Stop (Returned (result\<lparr>Error := insufficient_text\<rparr>) tr1)
      else
        (let tr2 = tr1 @ [EvPost LegA, EvPost LegB] in
         case (postA e, postB e) of
           (Some orderA, Some orderB) \<Rightarrow>
             if length (OrderID orderA) < 16 \<or> length (OrderID orderB) < 16
             then Stop (Panicked ''slice bounds out of range'' tr2)
             else
               (let tr3 = tr2 @ [EvSleep 3, EvGetOrder LegA (OrderID orderA),
                                   EvGetOrder LegB (OrderID orderB)] in
                case (getA e, getB e) of
                  (Some statusA, Some statusB) \<Rightarrow>
                    if pos (SizeMatched statusA) \<or> pos (SizeMatched statusB)
                    then Stop (Returned (result\<lparr>Success := True,
                                                FilledA := SizeMatched statusA,
                                                FilledB := SizeMatched statusB\<rparr>) tr3)
                    else Continue (tr3 @ [EvCancel LegA (OrderID orderA),
                                           EvCancel LegB (OrderID orderB)])
                | _ \<Rightarrow> Stop (Panicked ''invalid memory address or nil pointer dereference'' tr3))
         | _ \<Rightarrow> Continue tr2))"

text \<open>
  The loop and the statements after it. \<open>env attempt\<close> is what the outside answers
  during the attempt of that number.
\<close>

function order_loop ::
  "Config \<Rightarrow> (string \<Rightarrow> bool) \<Rightarrow> (int \<Rightarrow> attempt_env) \<Rightarrow> int \<Rightarrow> Result \<Rightarrow> event list \<Rightarrow> outcome" where
  "order_loop cfg pos env attempt result tr =
     (if attempt \<le> MaxRetries cfg then
        (case attempt_body cfg pos (env attempt) attempt result tr of
           Continue tr' \<Rightarrow> order_loop cfg pos env (attempt + 1) result tr'
         | Stop out \<Rightarrow> out)
      else Returned (result\<lparr>Error := retry_limit_error cfg\<rparr>) tr)"
  by pat_completeness auto
termination
  by (relation "measure (\<lambda>(cfg, pos, env, attempt, result, tr). nat (MaxRetries cfg + 1 - attempt))") auto

text \<open>
  The order loop as \<^verbatim>\<open>Execute\<close> enters it: \<^verbatim>\<open>result := &Result{Index: pair.Index}\<close>,
  first attempt 1, nothing done yet.
\<close>

definition new_Result :: "int \<Rightarrow> Result" where
  "new_Result i = \<lparr>Index = i, Success = False, FilledA = [], FilledB = [], Error = []\<rparr>"

definition run_orders :: "Config \<Rightarrow> (string \<Rightarrow> bool) \<Rightarrow> (int \<Rightarrow> attempt_env) \<Rightarrow> int \<Rightarrow> outcome" where
  "run_orders cfg pos env i = order_loop cfg pos env 1 (new_Result i) []"

text \<open>
  The attempt reaches the poll of both orders: on a retry the book was re-fetched with
  enough spread, the trade amount is at least one tick, both submissions returned an order
  whose id has the 16 characters the log line slices, and both polls returned a status.
\<close>

definition polls :: "attempt_env \<Rightarrow> int \<Rightarrow> bool" where
  "polls e attempt \<longleftrightarrow>
     \<not> (attempt > 1 \<and> (book_err e \<or> spread_low e)) \<and> \<not> amount_low e \<and>
     (case postA e of Some orderA \<Rightarrow> 16 \<le> length (OrderID orderA) | None \<Rightarrow> False) \<and>
     (case postB e of Some orderB \<Rightarrow> 16 \<le> length (OrderID orderB) | None \<Rightarrow> False) \<and>
     getA e \<noteq> None \<and> getB e \<noteq> None"

text \<open>The order ids and the polled \<^verbatim>\<open>size_matched\<close> strings of an attempt.\<close>

definition idA :: "attempt_env \<Rightarrow> string" where
  "idA e = (case postA e of Some orderA \<Rightarrow> OrderID orderA | None \<Rightarrow> [])"

definition idB :: "attempt_env \<Rightarrow> string" where
  "idB e = (case postB e of Some orderB \<Rightarrow> OrderID orderB | None \<Rightarrow> [])"

definition matchedA :: "attempt_env \<Rightarrow> string" where
  "matchedA e = (case getA e of Some statusA \<Rightarrow> SizeMatched statusA | None \<Rightarrow> [])"

definition matchedB :: "attempt_env \<Rightarrow> string" where
  "matchedB e = (case getB e of Some statusB \<Rightarrow> SizeMatched statusB | None \<Rightarrow> [])"

text \<open>Either leg reports a matched size above zero.\<close>

definition fill :: "(string \<Rightarrow> bool) \<Rightarrow> attempt_env \<Rightarrow> bool" where
  "fill pos e \<longleftrightarrow> pos (matchedA e) \<or> pos (matchedB e)"

text \<open>The attempt polls both orders and neither reports a matched size above zero.\<close>

definition zero_fill :: "(string \<Rightarrow> bool) \<Rightarrow> attempt_env \<Rightarrow> int \<Rightarrow> bool" where
  "zero_fill pos e attempt \<longleftrightarrow> polls e attempt \<and> \<not> pos (matchedA e) \<and> \<not> pos (matchedB e)"

text \<open>
  The attempt gets as far as the submissions and at least one of them fails.
\<close>

definition submit_fails :: "attempt_env \<Rightarrow> int \<Rightarrow> bool" where
  "submit_fails e attempt \<longleftrightarrow>
     \<not> (attempt > 1 \<and> (book_err e \<or> spread_low e)) \<and> \<not> amount_low e \<and>
     (postA e = None \<or> postB e = None)"

text \<open>
  The events of an attempt up to the submissions, up to the polls, and of an attempt that
  polled and cancelled.
\<close>

definition submit_trace :: "Config \<Rightarrow> int \<Rightarrow> event list" where
  "submit_trace cfg attempt =
     (if attempt > 1 then [EvSleep (GetRetryDelay cfg)] else []) @ [EvPost LegA, EvPost LegB]"

definition poll_trace :: "Config \<Rightarrow> attempt_env \<Rightarrow> int \<Rightarrow> event list" where
  "poll_trace cfg e attempt =
     (if attempt > 1 then [EvSleep (GetRetryDelay cfg)] else []) @
     [EvPost LegA, EvPost LegB, EvSleep 3, EvGetOrder LegA (idA e), EvGetOrder LegB (idB e)]"

definition zero_trace :: "Config \<Rightarrow> attempt_env \<Rightarrow> int \<Rightarrow> event list" where
  "zero_trace cfg e attempt =
     poll_trace cfg e attempt @ [EvCancel LegA (idA e), EvCancel LegB (idB e)]"

text \<open>
  Answers of the outside used as concrete scenarios: both orders placed and polled, with
  leg A matched \<^verbatim>\<open>"10"\<close> or \<^verbatim>\<open>"0"\<close> and leg B matched \<^verbatim>\<open>"0"\<close>; leg A placed while the
  submission of leg B fails; both submissions fail. \<open>not_zero\<close> reads every size string
  but \<^verbatim>\<open>"0"\<close> as above zero.
\<close>

definition scenario_polled :: "string \<Rightarrow> attempt_env" where
  "scenario_polled sizeA =
     \<lparr>book_err = False, spread_low = False, amount_low = False,
      postA = Some \<lparr>OrderID = ''0x0123456789abcdef''\<rparr>,
      postB = Some \<lparr>OrderID = ''0xfedcba9876543210''\<rparr>,
      getA = Some \<lparr>SizeMatched = sizeA\<rparr>, getB = Some \<lparr>SizeMatched = ''0''\<rparr>\<rparr>"

definition scenario_A_placed_B_failed :: attempt_env where
  "scenario_A_placed_B_failed =
     \<lparr>book_err = False, spread_low = False, amount_low = False,
      postA = Some \<lparr>OrderID = ''0x0123456789abcdef''\<rparr>, postB = None,
      getA = None, getB = None\<rparr>"

definition scenario_both_failed :: attempt_env where
  "scenario_both_failed =
     \<lparr>book_err = False, spread_low = False, amount_low = False,
      postA = None, postB = None, getA = None, getB = None\<rparr>"

definition not_zero :: "string \<Rightarrow> bool" where
  "not_zero s \<longleftrightarrow> s \<noteq> ''0''"

section \<open>OrderSigner: amounts of a limit order\<close>

text \<open>\<^verbatim>\<open>pow10\<close>: the loop \<^verbatim>\<open>for i := 0; i < n; i++ { result *= 10 }\<close> from \<^verbatim>\<open>1.0\<close>.\<close>

fun pow10_loop :: "nat \<Rightarrow> float64" where
  "pow10_loop 0 = 1"
| "pow10_loop (Suc i) = f64_mul (pow10_loop i) 10"

definition pow10 :: "int \<Rightarrow> float64" where
  "pow10 n = pow10_loop (nat n)"

definition roundNormal :: "float64 \<Rightarrow> int \<Rightarrow> float64" where
  "roundNormal v decimals =
     (let multiplier = pow10 decimals
      in f64_div (go_float64 (go_int (f64_add (f64_mul v multiplier) (1 / 2)))) multiplier)"

definition roundDown :: "float64 \<Rightarrow> int \<Rightarrow> float64" where
  "roundDown v decimals =
     (let multiplier = pow10 decimals
      in f64_div (go_float64 (go_int (f64_mul v multiplier))) multiplier)"

definition roundUp :: "float64 \<Rightarrow> int \<Rightarrow> float64" where
  "roundUp v decimals =
     (let multiplier = pow10 decimals
      in f64_div (go_float64 (go_int (f64_mul v multiplier) + 1)) multiplier)"

text \<open>
  \<^verbatim>\<open>decimalPlaces\<close>: the number of fraction digits of \<^verbatim>\<open>%.10f\<close> left after trimming
  trailing zeros.
\<close>

definition decimalPlaces :: "float64 \<Rightarrow> int" where
  "decimalPlaces v =
     (let str = fmt_f 10 v; parts = split_on CHR ''.'' str
      in if length parts < 2 then 0 else int (length (trim_right_zeros (parts ! 1))))"

text \<open>
  \<^verbatim>\<open>toUnits\<close>. The receiver of a failed \<^verbatim>\<open>SetString\<close> is unspecified; the model gives 0
  there, and \<open>toUnits_parses\<close> below shows that the call never fails.
\<close>

definition toUnits_string :: "float64 \<Rightarrow> string" where
  "toUnits_string v =
     (let valueStr = fmt_f 6 v;
          parts = split_on CHR ''.'' valueStr;
          intPart = parts ! 0;
          decPart =
            (if length parts > 1 then
               (let d = parts ! 1;
                    d1 = d @ replicate (6 - length d) CHR ''0''
                in if length d1 > 6 then take 6 d1 else d1)
             else ''000000'')
      in intPart @ decPart)"

definition toUnits :: "float64 \<Rightarrow> int" where
  "toUnits v = (case big_SetString (toUnits_string v) of Some n \<Rightarrow> n | None \<Rightarrow> 0)"

text \<open>\<^verbatim>\<open>Side\<close> and \<^verbatim>\<open>TickSize\<close> are string types; \<^verbatim>\<open>RoundConfig\<close> and the table.\<close>

definition SideBuy :: string where "SideBuy = ''BUY''"
definition SideSell :: string where "SideSell = ''SELL''"

definition TickSize01 :: string where "TickSize01 = ''0.1''"
definition TickSize001 :: string where "TickSize001 = ''0.01''"
definition TickSize0001 :: string where "TickSize0001 = ''0.001''"
definition TickSize00001 :: string where "TickSize00001 = ''0.0001''"

record RoundConfig =
  rc_Price :: int
  rc_Size :: int
  rc_Amount :: int

definition roundingConfigs :: "string \<rightharpoonup> RoundConfig" where
  "roundingConfigs =
     [TickSize01 \<mapsto> \<lparr>rc_Price = 1, rc_Size = 2, rc_Amount = 3\<rparr>,
      TickSize001 \<mapsto> \<lparr>rc_Price = 2, rc_Size = 2, rc_Amount = 4\<rparr>,
      TickSize0001 \<mapsto> \<lparr>rc_Price = 3, rc_Size = 2, rc_Amount = 5\<rparr>,
      TickSize00001 \<mapsto> \<lparr>rc_Price = 4, rc_Size = 2, rc_Amount = 6\<rparr>]"

text \<open>Indexing a Go map: the zero value for a missing key.\<close>

definition lookup_config :: "string \<Rightarrow> RoundConfig" where
  "lookup_config tickSize =
     (case roundingConfigs tickSize of
        Some c \<Rightarrow> c
      | None \<Rightarrow> \<lparr>rc_Price = 0, rc_Size = 0, rc_Amount = 0\<rparr>)"

definition config_for :: "string \<Rightarrow> RoundConfig" where
  "config_for tickSize =
     (let config = lookup_config tickSize
      in if rc_Price config = 0 then lookup_config TickSize001 else config)"

text \<open>
  The amount that is derived from size and price (the maker amount of a BUY, the taker
  amount of a SELL): the nested \<^verbatim>\<open>if\<close> of \<^verbatim>\<open>calculateOrderAmounts\<close>.
\<close>

definition fit_amount :: "float64 \<Rightarrow> int \<Rightarrow> float64" where
  "fit_amount raw amount =
     (if decimalPlaces raw > amount then
        (let up = roundUp raw (amount + 4)
         in if decimalPlaces up > amount then roundDown up amount else up)
      else raw)"

definition calculateOrderAmounts :: "string \<Rightarrow> float64 \<Rightarrow> float64 \<Rightarrow> string \<Rightarrow> int \<times> int" where
  "calculateOrderAmounts side sz price tickSize =
     (let config = config_for tickSize;
          rawPrice = roundNormal price (rc_Price config)
      in if side = SideBuy then
           (let rawTakerAmt = roundDown sz (rc_Size config);
                rawMakerAmt = fit_amount (f64_mul rawTakerAmt rawPrice) (rc_Amount config)
            in (toUnits rawMakerAmt, toUnits rawTakerAmt))
         else
           (let rawMakerAmt = roundDown sz (rc_Size config);
                rawTakerAmt = fit_amount (f64_mul rawMakerAmt rawPrice) (rc_Amount config)
            in (toUnits rawMakerAmt, toUnits rawTakerAmt)))"

section \<open>OrderSigner: building a signed order\<close>

text \<open>
  \<^verbatim>\<open>UserOrder\<close>, \<^verbatim>\<open>CreateOrderOptions\<close> and \<^verbatim>\<open>SignedOrder\<close> of the CLOB client. Amounts,
  expiration, nonce and fee of a signed order are decimal strings.
\<close>

record UserOrder =
  uo_TokenID :: string
  uo_Price :: float64
  uo_Size :: float64
  uo_Side :: string
  uo_FeeRateBps :: int
  uo_Nonce :: int
  uo_Expiration :: int
  uo_Taker :: string

record CreateOrderOptions =
  opt_TickSize :: string
  opt_NegRisk :: bool

record SignedOrder =
  so_Salt :: string
  so_Maker :: string
  so_Signer :: string
  so_Taker :: string
  so_TokenID :: string
  so_MakerAmount :: string
  so_TakerAmount :: string
  so_Side :: int
  so_Expiration :: string
  so_Nonce :: string
  so_FeeRateBps :: string
  so_SignatureType :: int
  so_Signature :: string

text \<open>
  \<^verbatim>\<open>OrderBuilder\<close>: the parsed private key (of an abstract type), the chain id, and the
  signer and funder addresses, kept as their hexadecimal strings.
\<close>

record 'k OrderBuilder =
  ob_privateKey :: 'k
  ob_chainID :: int
  ob_signer :: string
  ob_funder :: string
  ob_signatureType :: int

text \<open>
  The cryptographic library is a parameter: parsing a hexadecimal private key
  (\<^verbatim>\<open>crypto.HexToECDSA\<close>), the address of a key (\<^verbatim>\<open>crypto.PubkeyToAddress\<close> followed by
  \<^verbatim>\<open>Hex\<close>), the normal form of an address string (\<^verbatim>\<open>common.HexToAddress\<close> followed by
  \<^verbatim>\<open>Hex\<close>), and \<^verbatim>\<open>OrderBuilder.signOrder\<close>, the EIP-712 hash of the order for the given
  exchange contract signed with the builder's key. An error is its message.
\<close>

record 'k crypto =
  HexToECDSA :: "string \<Rightarrow> string + 'k"
  PubkeyToAddress :: "'k \<Rightarrow> string"
  HexToAddress :: "string \<Rightarrow> string"
  signOrder :: "'k OrderBuilder \<Rightarrow> SignedOrder \<Rightarrow> string \<Rightarrow> string + string"

definition ContractCTFExchange :: string where
  "ContractCTFExchange = ''0x4bFb41d5B3570DeFd03C39a9A4D8dE6Bd8B8982E''"

definition ContractNegRiskCTFExchange :: string where
  "ContractNegRiskCTFExchange = ''0xC5d563A36AE78145C45a50134d48A1215220f80a''"

text \<open>\<^verbatim>\<open>common.Address{}.Hex()\<close>, the zero address.\<close>

definition zero_address :: string where
  "zero_address = ''0x0000000000000000000000000000000000000000''"

text \<open>\<^verbatim>\<open>strings.TrimPrefix\<close>.\<close>

definition TrimPrefix :: "string \<Rightarrow> string \<Rightarrow> string" where
  "TrimPrefix s pre = (if prefix pre s then drop (length pre) s else s)"

definition NewOrderBuilder :: "'k crypto \<Rightarrow> 'k \<Rightarrow> int \<Rightarrow> int \<Rightarrow> string \<Rightarrow> 'k OrderBuilder" where
  "NewOrderBuilder cr privateKey chainID signatureType funder =
     (let signer = PubkeyToAddress cr privateKey;
          funderAddr = (if funder \<noteq> [] then HexToAddress cr funder else signer)
      in \<lparr>ob_privateKey = privateKey, ob_chainID = chainID, ob_signer = signer,
          ob_funder = funderAddr, ob_signatureType = signatureType\<rparr>)"

text \<open>
  The fields of \<^verbatim>\<open>ClientConfig\<close> that reach the order builder, and the part of
  \<^verbatim>\<open>NewClient\<close> that makes it: this is where the private key is parsed.
\<close>

record ClientConfig =
  cc_PrivateKey :: string
  cc_ChainID :: int
  cc_Funder :: string
  cc_SignatureType :: int

definition ChainIDPolygon :: int where
  "ChainIDPolygon = 137"

definition NewClient_orderBuilder :: "'k crypto \<Rightarrow> ClientConfig \<Rightarrow> string + 'k OrderBuilder" where
  "NewClient_orderBuilder cr cfg =
     (let chainID = (if cc_ChainID cfg = 0 then ChainIDPolygon else cc_ChainID cfg)
      in case HexToECDSA cr (TrimPrefix (cc_PrivateKey cfg) ''0x'') of
           Inl err \<Rightarrow> Inl (''parse private key: '' @ err)
         | Inr privateKey \<Rightarrow>
             (let address = PubkeyToAddress cr privateKey;
                  funder = (if cc_Funder cfg = [] then address else cc_Funder cfg)
              in Inr (NewOrderBuilder cr privateKey chainID (cc_SignatureType cfg) funder)))"

text \<open>
  \<^verbatim>\<open>OrderBuilder.BuildOrder\<close>. The random salt and the clock (seconds since the epoch)
  are parameters. The order as it is handed to \<^verbatim>\<open>signOrder\<close> has an empty signature.
\<close>

definition order_to_sign :: "string \<Rightarrow> int \<Rightarrow> 'k OrderBuilder \<Rightarrow> UserOrder \<Rightarrow> CreateOrderOptions \<Rightarrow> SignedOrder" where
  "order_to_sign salt now b order opts =
     (let (makerAmount, takerAmount) =
            calculateOrderAmounts (uo_Side order) (uo_Size order) (uo_Price order) (opt_TickSize opts);
          expiration = (if uo_Expiration order = 0 then now + 365 * 24 * 3600
                        else uo_Expiration order);
          nonce = uo_Nonce order;
          taker = (if uo_Taker order = [] then zero_address else uo_Taker order);
          sideInt = (if uo_Side order = SideSell then 1 else 0)
      in \<lparr>so_Salt = salt, so_Maker = ob_funder b, so_Signer = ob_signer b, so_Taker = taker,
          so_TokenID = uo_TokenID order, so_MakerAmount = fmt_d makerAmount,
          so_TakerAmount = fmt_d takerAmount, so_Side = sideInt,
          so_Expiration = fmt_d expiration, so_Nonce = fmt_d nonce,
          so_FeeRateBps = fmt_d (uo_FeeRateBps order),
          so_SignatureType = ob_signatureType b, so_Signature = []\<rparr>)"

definition exchange_for :: "CreateOrderOptions \<Rightarrow> string" where
  "exchange_for opts =
     (if opt_NegRisk opts then ContractNegRiskCTFExchange else ContractCTFExchange)"

definition BuildOrder ::
  "'k crypto \<Rightarrow> string \<Rightarrow> int \<Rightarrow> 'k OrderBuilder \<Rightarrow> UserOrder \<Rightarrow> CreateOrderOptions \<Rightarrow> string + SignedOrder" where
  "BuildOrder cr salt now b order opts =
     (let signedOrder = order_to_sign salt now b order opts;
          exchange = exchange_for opts
      in case signOrder cr b signedOrder exchange of
           Inl err \<Rightarrow> Inl (''sign order: '' @ err)
         | Inr signature \<Rightarrow> Inr (signedOrder\<lparr>so_Signature := signature\<rparr>))"

text \<open>
  A cryptographic library for concrete scenarios: a key is any non-empty string of
  hexadecimal text, addresses are fixed and every signing succeeds.
\<close>

definition scenario_crypto :: "string crypto" where
  "scenario_crypto =
     \<lparr>HexToECDSA = (\<lambda>s. if s = [] then Inl ''invalid length, need 256 bits'' else Inr s),
      PubkeyToAddress = (\<lambda>k. ''0x1111111111111111111111111111111111111111''),
      HexToAddress = (\<lambda>a. a),
      signOrder = (\<lambda>b order exchange. Inr ''0x5ig'')\<rparr>"

definition scenario_builder :: "string OrderBuilder" where
  "scenario_builder = NewOrderBuilder scenario_crypto ''ab'' 137 2 []"

definition scenario_order :: "float64 \<Rightarrow> float64 \<Rightarrow> UserOrder" where
  "scenario_order sz price =
     \<lparr>uo_TokenID = ''1234'', uo_Price = price, uo_Size = sz, uo_Side = SideBuy, uo_FeeRateBps = 0,
      uo_Nonce = 0, uo_Expiration = 1800000000, uo_Taker = []\<rparr>"

text \<open>The signed order of those scenarios, with the given amounts.\<close>

definition scenario_signed :: "string \<Rightarrow> string \<Rightarrow> SignedOrder" where
  "scenario_signed makerAmount takerAmount =
     \<lparr>so_Salt = ''77'',
      so_Maker = ''0x1111111111111111111111111111111111111111'',
      so_Signer = ''0x1111111111111111111111111111111111111111'',
      so_Taker = ''0x0000000000000000000000000000000000000000'',
      so_TokenID = ''1234'', so_MakerAmount = makerAmount, so_TakerAmount = takerAmount,
      so_Side = 0, so_Expiration = ''1800000000'', so_Nonce = ''0'',
      so_FeeRateBps = ''0'', so_SignatureType = 2, so_Signature = ''0x5ig''\<rparr>"

section \<open>ExecutionEngine: the prices of the two legs\<close>







section \<open>Properties of decimal formatting and unit conversion\<close>

lemma digit_cases:
  "0 \<le> d \<Longrightarrow> d < 10 \<Longrightarrow>
   d = 0 \<or> d = 1 \<or> d = 2 \<or> d = 3 \<or> d = 4 \<or> d = 5 \<or> d = 6 \<or> d = 7 \<or> d = 8 \<or> d = (9::int)"
  by arith

lemma digit_val_digit_char: "0 \<le> d \<Longrightarrow> d < 10 \<Longrightarrow> digit_val (digit_char d) = Some d"
  using digit_cases [of d] by (auto simp: digit_val_def digit_char_def)

lemma digit_char_in_digits: "0 \<le> d \<Longrightarrow> d < 10 \<Longrightarrow> digit_char d \<in> set ''0123456789''"
  using digit_cases [of d] by (auto simp: digit_char_def)

lemma digits_of_chars: "0 \<le> n \<Longrightarrow> set (digits_of n) \<subseteq> set ''0123456789''"
proof (induction n rule: digits_of.induct)
  case (1 n)
  show ?case
  proof (cases "n < 10")
    case True
    then show ?thesis
      using "1.prems" digit_char_in_digits [of n] by (subst digits_of.simps) simp
  next
    case False
    then have "set (digits_of (n div 10)) \<subseteq> set ''0123456789''"
      using "1.IH" "1.prems" by simp
    moreover have "digit_char (n mod 10) \<in> set ''0123456789''"
      by (rule digit_char_in_digits) simp_all
    ultimately show ?thesis
      using False by (subst digits_of.simps) simp
  qed
qed

lemma digits_of_nonempty: "digits_of n \<noteq> []"
  by (subst digits_of.simps) simp

lemma parse_digits_of:
  "0 \<le> n \<Longrightarrow>
   parse_digits acc (digits_of n @ rest) = parse_digits (acc * 10 ^ length (digits_of n) + n) rest"
proof (induction n arbitrary: rest rule: digits_of.induct)
  case (1 n)
  show ?case
  proof (cases "n < 10")
    case True
    then show ?thesis
      using "1.prems" by (subst (1 2) digits_of.simps) (simp add: digit_val_digit_char)
  next
    case False
    let ?q = "n div 10" and ?r = "n mod 10"
    have eq: "digits_of n = digits_of ?q @ [digit_char ?r]"
      using False by (subst digits_of.simps) simp
    have "parse_digits acc (digits_of n @ rest) =
            parse_digits acc (digits_of ?q @ (digit_char ?r # rest))"
      by (simp add: eq)
    also have "\<dots> = parse_digits (acc * 10 ^ length (digits_of ?q) + ?q) (digit_char ?r # rest)"
      using False "1.prems" by (intro "1.IH") simp_all
    also have "\<dots> = parse_digits ((acc * 10 ^ length (digits_of ?q) + ?q) * 10 + ?r) rest"
      by (simp add: digit_val_digit_char)
    also have "(acc * 10 ^ length (digits_of ?q) + ?q) * 10 + ?r
                 = acc * 10 ^ length (digits_of n) + n"
      by (simp add: eq algebra_simps)
    finally show ?thesis .
  qed
qed

lemma length_digits_of: "0 \<le> n \<Longrightarrow> n < 10 ^ p \<Longrightarrow> 0 < p \<Longrightarrow> length (digits_of n) \<le> p"
proof (induction n arbitrary: p rule: digits_of.induct)
  case (1 n)
  show ?case
  proof (cases "n < 10")
    case True
    then show ?thesis using "1.prems" by (subst digits_of.simps) simp
  next
    case False
    obtain p' where p: "p = Suc p'" using "1.prems"(3) by (cases p) auto
    have p'pos: "0 < p'"
    proof (rule ccontr)
      assume "\<not> 0 < p'"
      then have "p = 1" using p by simp
      then show False using "1.prems"(2) False by simp
    qed
    have "n div 10 < 10 ^ p'"
      using "1.prems"(2) p by simp
    then have "length (digits_of (n div 10)) \<le> p'"
      using False "1.prems"(1) p'pos by (intro "1.IH") simp_all
    then show ?thesis
      using False p by (subst digits_of.simps) simp
  qed
qed

lemma parse_digits_zeros:
  "parse_digits acc (replicate k CHR ''0'' @ rest) = parse_digits (acc * 10 ^ k) rest"
  by (induction k arbitrary: acc) (simp_all add: digit_val_def algebra_simps)

lemma length_pad_left: "length s \<le> n \<Longrightarrow> length (pad_left n s) = n"
  by (simp add: pad_left_def)

lemma pad_left_chars: "set s \<subseteq> set ''0123456789'' \<Longrightarrow> set (pad_left n s) \<subseteq> set ''0123456789''"
  by (auto simp: pad_left_def)

lemma parse_pad_left_digits:
  assumes "0 \<le> m" "m < 10 ^ p" "0 < p"
  shows "parse_digits acc (pad_left p (digits_of m) @ rest) = parse_digits (acc * 10 ^ p + m) rest"
proof -
  let ?l = "length (digits_of m)"
  have l: "?l \<le> p" using assms by (rule length_digits_of)
  have "parse_digits acc (pad_left p (digits_of m) @ rest)
          = parse_digits (acc * 10 ^ (p - ?l)) (digits_of m @ rest)"
    by (simp add: pad_left_def parse_digits_zeros)
  also have "\<dots> = parse_digits (acc * 10 ^ (p - ?l) * 10 ^ ?l + m) rest"
    using assms(1) by (rule parse_digits_of)
  also have "acc * 10 ^ (p - ?l) * 10 ^ ?l = acc * 10 ^ p"
    using l by (simp add: power_add [symmetric] mult.assoc)
  finally show ?thesis .
qed

lemma split_on_no_sep: "c \<notin> set xs \<Longrightarrow> split_on c xs = [xs]"
  by (induction xs) auto

lemma split_on_sep: "c \<notin> set xs \<Longrightarrow> split_on c (xs @ c # ys) = xs # split_on c ys"
  by (induction xs) auto

text \<open>The shape of a \<^verbatim>\<open>%.Nf\<close> string: what \<^verbatim>\<open>strings.Split\<close> finds around the point.\<close>

lemma split_fmt_f:
  assumes "0 < prec"
  shows "split_on CHR ''.'' (fmt_f prec x) =
           [(if x < 0 then ''-'' else []) @ digits_of (round_half_even (\<bar>x\<bar> * 10 ^ prec) div 10 ^ prec),
            pad_left prec (digits_of (round_half_even (\<bar>x\<bar> * 10 ^ prec) mod 10 ^ prec))]"
proof -
  let ?n = "round_half_even (\<bar>x\<bar> * 10 ^ prec)"
  have n: "0 \<le> ?n"
    by (auto simp: round_half_even_def Let_def intro: add_nonneg_nonneg)
  have ip: "set (digits_of (?n div 10 ^ prec)) \<subseteq> set ''0123456789''"
    using n by (intro digits_of_chars) (simp add: pos_imp_zdiv_nonneg_iff)
  have fp: "set (pad_left prec (digits_of (?n mod 10 ^ prec))) \<subseteq> set ''0123456789''"
    by (intro pad_left_chars digits_of_chars) simp
  have 1: "CHR ''.'' \<notin> set ((if x < 0 then ''-'' else []) @ digits_of (?n div 10 ^ prec))"
    using ip by auto
  have 2: "CHR ''.'' \<notin> set (pad_left prec (digits_of (?n mod 10 ^ prec)))"
    using fp by auto
  show ?thesis
    unfolding fmt_f_def Let_def
    using split_on_sep [OF 1] split_on_no_sep [OF 2] by simp
qed

lemma round_half_even_nonneg: "0 \<le> x \<Longrightarrow> 0 \<le> round_half_even x"
  by (auto simp: round_half_even_def Let_def intro: add_nonneg_nonneg)

lemma round_half_even_bounds:
  "of_int (round_half_even x) - 1 / 2 \<le> x \<and> x \<le> of_int (round_half_even x) + 1 / 2"
proof -
  have f: "of_int \<lfloor>x\<rfloor> \<le> x" "x < of_int \<lfloor>x\<rfloor> + 1" by linarith+
  consider "x - of_int \<lfloor>x\<rfloor> < 1 / 2" | "1 / 2 < x - of_int \<lfloor>x\<rfloor>" | "x - of_int \<lfloor>x\<rfloor> = 1 / 2"
    by linarith
  then show ?thesis
  proof cases
    case 1
    then have r: "round_half_even x = \<lfloor>x\<rfloor>" by (simp add: round_half_even_def Let_def)
    show ?thesis unfolding r using f 1 by linarith
  next
    case 2
    then have r: "round_half_even x = \<lfloor>x\<rfloor> + 1" by (simp add: round_half_even_def Let_def)
    show ?thesis unfolding r using f 2 by simp
  next
    case 3
    then have "round_half_even x = \<lfloor>x\<rfloor> \<or> round_half_even x = \<lfloor>x\<rfloor> + 1"
      by (simp add: round_half_even_def Let_def)
    then show ?thesis
    proof
      assume r: "round_half_even x = \<lfloor>x\<rfloor>"
      show ?thesis unfolding r using f 3 by linarith
    next
      assume r: "round_half_even x = \<lfloor>x\<rfloor> + 1"
      show ?thesis unfolding r using f 3 by simp
    qed
  qed
qed

text \<open>The two parts of the \<^verbatim>\<open>%.6f\<close> string of an amount.\<close>

lemma toUnits_string_eq:
  "toUnits_string v =
     (if v < 0 then ''-'' else []) @ digits_of (round_half_even (\<bar>v\<bar> * 10 ^ 6) div 10 ^ 6) @
     pad_left 6 (digits_of (round_half_even (\<bar>v\<bar> * 10 ^ 6) mod 10 ^ 6))"
proof -
  define n where "n = round_half_even (\<bar>v\<bar> * 10 ^ 6)"
  define ip where "ip = (if v < 0 then ''-'' else []) @ digits_of (n div 10 ^ 6)"
  define fp where "fp = pad_left 6 (digits_of (n mod 10 ^ 6))"
  have "length (digits_of (n mod 10 ^ 6)) \<le> 6"
    by (rule length_digits_of) simp_all
  then have len: "length fp = 6"
    unfolding fp_def by (rule length_pad_left)
  have sp: "split_on CHR ''.'' (fmt_f 6 v) = [ip, fp]"
    unfolding ip_def fp_def n_def by (rule split_fmt_f) simp
  have "toUnits_string v = ip @ fp"
    unfolding toUnits_string_def Let_def sp by (simp add: len)
  then show ?thesis
    by (simp add: ip_def fp_def n_def)
qed

lemma parse_unsigned_digits:
  assumes "0 \<le> n"
  shows "parse_unsigned (digits_of (n div 10 ^ 6) @ pad_left 6 (digits_of (n mod 10 ^ 6))) = Some n"
proof -
  have "parse_digits 0 (digits_of (n div 10 ^ 6) @ pad_left 6 (digits_of (n mod 10 ^ 6)) @ [])
          = parse_digits (n div 10 ^ 6) (pad_left 6 (digits_of (n mod 10 ^ 6)) @ [])"
    using assms by (subst parse_digits_of) (simp_all add: pos_imp_zdiv_nonneg_iff)
  also have "\<dots> = parse_digits (n div 10 ^ 6 * 10 ^ 6 + n mod 10 ^ 6) []"
    by (rule parse_pad_left_digits) simp_all
  finally show ?thesis
    by (simp add: parse_unsigned_def digits_of_nonempty)
qed

lemma hd_digits_of_not_sign:
  "0 \<le> n \<Longrightarrow> digits_of n @ rest = c # cs \<Longrightarrow> c \<noteq> CHR ''-'' \<and> c \<noteq> CHR ''+''"
proof -
  assume n: "0 \<le> n" and eq: "digits_of n @ rest = c # cs"
  have "c \<in> set (digits_of n)"
    using eq digits_of_nonempty [of n] by (cases "digits_of n") auto
  then have "c \<in> set ''0123456789''" using digits_of_chars [OF n] by blast
  then show ?thesis by auto
qed

text \<open>
  \<^verbatim>\<open>SetString\<close> never fails in \<^verbatim>\<open>toUnits\<close>, and the result is the amount times \<open>10\<^sup>6\<close>
  rounded to the nearest integer, ties to even, with the sign of the amount.
\<close>

lemma toUnits_parses:
  "big_SetString (toUnits_string v) =
     Some (if v < 0 then - round_half_even (\<bar>v\<bar> * 10 ^ 6) else round_half_even (\<bar>v\<bar> * 10 ^ 6))"
proof -
  define n where "n = round_half_even (\<bar>v\<bar> * 10 ^ 6)"
  define body where "body = digits_of (n div 10 ^ 6) @ pad_left 6 (digits_of (n mod 10 ^ 6))"
  have n: "0 \<le> n" unfolding n_def by (rule round_half_even_nonneg) simp
  have p: "parse_unsigned body = Some n"
    unfolding body_def using n by (rule parse_unsigned_digits)
  have d: "0 \<le> n div 10 ^ 6" using n by (simp add: pos_imp_zdiv_nonneg_iff)
  have str: "toUnits_string v = (if v < 0 then ''-'' else []) @ body"
    unfolding body_def n_def by (rule toUnits_string_eq)
  have "big_SetString (toUnits_string v) = Some (if v < 0 then - n else n)"
  proof (cases "v < 0")
    case True
    then show ?thesis
      by (simp add: str big_SetString_def p)
  next
    case False
    obtain c cs where cs: "body = c # cs"
      using digits_of_nonempty [of "n div 10 ^ 6"] by (cases body) (auto simp: body_def)
    then have "c \<noteq> CHR ''-'' \<and> c \<noteq> CHR ''+''"
      using hd_digits_of_not_sign [OF d] unfolding body_def by blast
    then have "big_SetString body = parse_unsigned body"
      by (simp add: big_SetString_def cs)
    then show ?thesis
      using False by (simp add: str p)
  qed
  then show ?thesis unfolding n_def .
qed

lemma toUnits_eq:
  "toUnits v = (if v < 0 then - round_half_even (\<bar>v\<bar> * 10 ^ 6) else round_half_even (\<bar>v\<bar> * 10 ^ 6))"
  by (simp add: toUnits_def toUnits_parses)

section \<open>Rounding error of float64 operations\<close>












section \<open>Properties of the order book\<close>








section \<open>Properties of closing a connection\<close>

lemma Close_open:
  "stopCh c = ChanOpen \<Longrightarrow> Close c = Inr (closed_state (reconnectAttempts c))"
  by (simp add: Close_def Let_def stopPing_def stopReconnect_def go_close_def closed_state_def)

lemma Close_closed:
  "stopCh c = ChanClosed \<Longrightarrow> Close c = Inl (Panic ''close of closed channel'')"
  by (simp add: Close_def Let_def stopPing_def stopReconnect_def go_close_def)

lemma Close_then_Close:
  "Close c = Inr c' \<Longrightarrow> Close c' = Inl (Panic ''close of closed channel'')"
  by (cases "stopCh c") (auto simp: Close_open Close_closed closed_state_def)

text \<open>
  C10 (the code at the failing input). On a session that never connected, the first
  \<^verbatim>\<open>Close\<close> completes and leaves the intentionally-closed state (reconnection
  suppressed, heartbeat stopped, socket released), and a second \<^verbatim>\<open>Close\<close> on that state
  does not complete: it panics with \<^verbatim>\<open>close of closed channel\<close>.
\<close>

theorem Close_twice_panics:
  "Close NewConnection = Inr (closed_state 0) \<and>
   Close (closed_state 0) = Inl (Panic ''close of closed channel'')"
  by (simp add: Close_open Close_closed NewConnection_def closed_state_def)

section \<open>Properties of the round start\<close>

lemma norm_carry_eq: "0 < base \<Longrightarrow> norm_carry hi lo base = (hi + lo div base, lo mod base)"
proof (cases "lo < 0")
  case neg: True
  assume b: "0 < base"
  define n where "n = (- lo - 1) div base + 1"
  have n1: "lo + n * base \<ge> 0"
  proof -
    have "(- lo - 1) div base * base \<ge> (- lo - 1) - (base - 1)"
      using b by (smt (verit) div_mult_mod_eq pos_mod_bound)
    then show ?thesis by (simp add: n_def algebra_simps)
  qed
  have n2: "lo + n * base < base"
  proof -
    have "(- lo - 1) div base * base \<le> - lo - 1"
      using b by (smt (verit) div_mult_mod_eq pos_mod_sign)
    then show ?thesis by (simp add: n_def algebra_simps)
  qed
  have d: "lo div base = - n"
  proof -
    have "(lo + n * base) div base = 0" using n1 n2 by simp
    then show ?thesis using b by simp
  qed
  have m: "lo mod base = lo + n * base"
  proof -
    have e: "(lo + n * base) mod base = lo mod base" by simp
    show ?thesis using mod_pos_pos_trivial[OF n1 n2] unfolding e .
  qed
  have "norm_carry hi lo base = (hi - n, lo + n * base)"
    using neg n2 by (simp add: norm_carry_def Let_def n_def[symmetric])
  also have "\<dots> = (hi + lo div base, lo mod base)"
    by (simp only: d m) simp
  finally show ?thesis .
next
  case False
  assume b: "0 < base"
  show ?thesis
  proof (cases "lo \<ge> base")
    case True
    then show ?thesis using False b
      by (simp add: norm_carry_def Let_def minus_div_mult_eq_mod)
  next
    case lt: False
    then have "lo div base = 0" "lo mod base = lo" using False by simp_all
    then show ?thesis using False lt by (simp add: norm_carry_def Let_def)
  qed
qed

lemma time_Date_linear:
  "time_Date y mo d h mi s = time_Date y mo d 0 0 0 + (h * 3600 + mi * 60 + s)"
proof -
  obtain y1 m where ym: "norm_carry y (mo - 1) 12 = (y1, m)" by force
  define D where "D = daysSinceEpoch y1 + daysBefore ! nat m + (if isLeap y1 \<and> m + 1 \<ge> 3 then 1 else 0)"
  have "time_Date y mo d h mi s =
      (D + (d + (h + (mi + s div 60) div 60) div 24 - 1)) * 86400
        + ((h + (mi + s div 60) div 60) mod 24 * 3600 + (mi + s div 60) mod 60 * 60 + s mod 60)"
    by (simp add: time_Date_def ym norm_carry_eq Let_def D_def)
  also have "\<dots> = (D + (d - 1)) * 86400 + (h * 3600 + mi * 60 + s)"
  proof -
    define a where "a = s div 60"
    define b where "b = (mi + a) div 60"
    define c where "c = (h + b) div 24"
    have 1: "s mod 60 = s - a * 60" by (simp add: a_def minus_div_mult_eq_mod)
    have 2: "(mi + a) mod 60 = mi + a - b * 60" by (simp add: b_def minus_div_mult_eq_mod)
    have 3: "(h + b) mod 24 = h + b - c * 24" by (simp add: c_def minus_div_mult_eq_mod)
    show ?thesis
      unfolding a_def[symmetric] b_def[symmetric] c_def[symmetric] 1 2 3
      by (simp add: algebra_simps)
  qed
  also have "(D + (d - 1)) * 86400 = time_Date y mo d 0 0 0"
    by (simp add: time_Date_def ym norm_carry_eq Let_def D_def)
  finally show ?thesis .
qed


lemma midnight_multiple: "\<exists>k. time_Date y mo d 0 0 0 = k * 86400"
proof -
  obtain y1 m where ym: "norm_carry y (mo - 1) 12 = (y1, m)" by force
  define D where "D = daysSinceEpoch y1 + daysBefore ! nat m + (if isLeap y1 \<and> m + 1 \<ge> 3 then 1 else 0)"
  have "time_Date y mo d 0 0 0 = (D + (d - 1)) * 86400"
    by (simp add: time_Date_def ym norm_carry_eq Let_def D_def)
  then show ?thesis by blast
qed

lemma periodSec_cases:
  "periodSec_of period = 900 \<or> periodSec_of period = 3600 \<or> periodSec_of period = 14400
     \<or> periodSec_of period = 86400"
  by (simp add: periodSec_of_def getPeriodDuration_def duration_Seconds_def)

lemma periodSec_daily: "periodSec_of ''daily'' = 86400"
  by (simp add: periodSec_of_def getPeriodDuration_def duration_Seconds_def)

lemma periodSec_dvd: "periodSec_of period dvd 86400"
  using periodSec_cases [of period] by auto

lemma periodSec_pos: "0 < periodSec_of period"
  using periodSec_cases [of period] by auto

lemma calc_not_daily:
  "period \<noteq> ''daily'' \<Longrightarrow>
   calcCurrentRoundStart period now =
     time_Date (Year now) (Month now) (Day now) 0 0 0
       + (Hour now * 3600 + Minute now * 60 + Second now) div periodSec_of period * periodSec_of period"
  by (simp add: calcCurrentRoundStart_def Let_def periodSec_of_def
        time_Date_linear [of _ _ _ 0 0 "_ * _"])

lemma calc_daily:
  "calcCurrentRoundStart ''daily'' now = time_Date (Year now) (Month now) (Day now) 0 0 0"
  by (simp add: calcCurrentRoundStart_def)

lemma clock_seconds_range:
  "valid_clock now \<Longrightarrow>
   0 \<le> Hour now * 3600 + Minute now * 60 + Second now \<and>
   Hour now * 3600 + Minute now * 60 + Second now < 86400"
  by (simp add: valid_clock_def)

lemma truncation:
  assumes "valid_clock now"
  shows "calcCurrentRoundStart period now \<le> time_of now"
    and "time_of now < calcCurrentRoundStart period now + periodSec_of period"
    and "calcCurrentRoundStart period now mod periodSec_of period = 0"
proof -
  define c where "c = Hour now * 3600 + Minute now * 60 + Second now"
  define M where "M = time_Date (Year now) (Month now) (Day now) 0 0 0"
  define P where "P = periodSec_of period"
  have c: "0 \<le> c" "c < 86400" using clock_seconds_range [OF assms] by (simp_all add: c_def)
  have P: "0 < P" "P dvd 86400" by (simp_all add: P_def periodSec_pos periodSec_dvd)
  have now: "time_of now = M + c"
    unfolding time_of_def M_def c_def by (rule time_Date_linear)
  obtain k where k: "M = k * 86400" using midnight_multiple [of "Year now" "Month now" "Day now"]
    by (auto simp: M_def)
  have Mmod: "M mod P = 0" using P(2) k by (simp add: mod_eq_0_iff_dvd)
  have start: "calcCurrentRoundStart period now = (if period = ''daily'' then M else M + c div P * P)"
    using calc_not_daily [of period now] calc_daily [of now] by (simp add: M_def c_def P_def)
  have le: "c div P * P \<le> c" using P(1) c(1)
    by (metis div_mult_mod_eq le_add_same_cancel1 pos_mod_sign)
  have lt: "c < c div P * P + P" using P(1)
    by (smt (verit) div_mult_mod_eq pos_mod_bound)
  have dP: "period = ''daily'' \<Longrightarrow> P = 86400" by (simp add: P_def periodSec_daily)
  show "calcCurrentRoundStart period now \<le> time_of now"
    using le c by (simp add: start now)
  show "time_of now < calcCurrentRoundStart period now + periodSec_of period"
    using lt c dP by (auto simp: start now P_def[symmetric])
  show "calcCurrentRoundStart period now mod periodSec_of period = 0"
    using Mmod by (simp add: start P_def[symmetric] mod_add_eq [symmetric, of M P])
qed

text \<open>
  C9. The round start is the wall clock truncated down to the period boundary. For period
  \<^verbatim>\<open>15m\<close>, a clock of 10:07:33 on any date gives 10:00:00 of that date; for period
  \<^verbatim>\<open>daily\<close>, every clock reading gives 00:00:00 of its date; and for every period and
  every clock reading, the round start is at or before the clock's instant, less than one
  period before it, and a whole number of periods since the epoch.
\<close>

theorem calcCurrentRoundStart_aligns:
  "calcCurrentRoundStart ''15m'' \<lparr>Year = y, Month = mo, Day = d, Hour = 10, Minute = 7, Second = 33\<rparr>
     = time_Date y mo d 10 0 0
   \<and> calcCurrentRoundStart ''daily'' now = time_Date (Year now) (Month now) (Day now) 0 0 0
   \<and> (valid_clock t \<longrightarrow>
        calcCurrentRoundStart period t \<le> time_of t
        \<and> time_of t < calcCurrentRoundStart period t + periodSec_of period
        \<and> calcCurrentRoundStart period t mod periodSec_of period = 0)"
proof -
  have "calcCurrentRoundStart ''15m'' \<lparr>Year = y, Month = mo, Day = d, Hour = 10, Minute = 7, Second = 33\<rparr>
     = time_Date y mo d 0 0 0 + 36000"
    by (simp add: calc_not_daily periodSec_of_def getPeriodDuration_def duration_Seconds_def)
  also have "\<dots> = time_Date y mo d 10 0 0"
    by (simp add: time_Date_linear [of y mo d 10 0 0])
  finally show ?thesis
    using truncation [of t period] calc_daily [of now] by blast
qed

theorem calcCurrentRoundStart_aligns_witness:
  "valid_clock \<lparr>Year = 2026, Month = 11, Day = 1, Hour = 13, Minute = 59, Second = 59\<rparr>
   \<and> calcCurrentRoundStart ''4h'' \<lparr>Year = 2026, Month = 11, Day = 1, Hour = 13, Minute = 59, Second = 59\<rparr>
       \<le> time_of \<lparr>Year = 2026, Month = 11, Day = 1, Hour = 13, Minute = 59, Second = 59\<rparr>
   \<and> time_of \<lparr>Year = 2026, Month = 11, Day = 1, Hour = 13, Minute = 59, Second = 59\<rparr>
       < calcCurrentRoundStart ''4h'' \<lparr>Year = 2026, Month = 11, Day = 1, Hour = 13, Minute = 59, Second = 59\<rparr>
           + periodSec_of ''4h''
   \<and> calcCurrentRoundStart ''4h'' \<lparr>Year = 2026, Month = 11, Day = 1, Hour = 13, Minute = 59, Second = 59\<rparr>
         mod periodSec_of ''4h'' = 0
   \<and> time_of \<lparr>Year = 2026, Month = 11, Day = 1, Hour = 13, Minute = 59, Second = 59\<rparr> = 1793541599
   \<and> periodSec_of ''4h'' = 14400"
proof -
  let ?t = "\<lparr>Year = 2026, Month = 11, Day = 1, Hour = 13, Minute = 59, Second = 59\<rparr>"
  have v: "valid_clock ?t" by (simp add: valid_clock_def)
  have p: "periodSec_of ''4h'' = 14400"
    by (simp add: periodSec_of_def getPeriodDuration_def duration_Seconds_def)
  have n: "time_of ?t = 1793541599"
    by (simp add: time_of_def time_Date_def norm_carry_def daysSinceEpoch_def daysBefore_def isLeap_def)
  show ?thesis
    using calcCurrentRoundStart_aligns [of 2026 11 1 ?t ?t "''4h''"] v p n by blast
qed

section \<open>Properties of the order loop\<close>

lemma order_loop_unfold:
  "order_loop cfg pos env attempt result tr =
     (if attempt \<le> MaxRetries cfg then
        (case attempt_body cfg pos (env attempt) attempt result tr of
           Continue tr' \<Rightarrow> order_loop cfg pos env (attempt + 1) result tr'
         | Stop out \<Rightarrow> out)
      else Returned (result\<lparr>Error := retry_limit_error cfg\<rparr>) tr)"
  by (rule order_loop.simps)

declare order_loop.simps [simp del]

text \<open>Attempts that all go on to the next one only add their events to the trace.\<close>

lemma order_loop_continues_from:
  assumes "\<And>j tr. lo \<le> j \<Longrightarrow> j < k \<Longrightarrow>
             attempt_body cfg pos (env j) j result tr = Continue (tr @ f j)"
    and "k \<le> MaxRetries cfg + 1"
  shows "lo \<le> a \<Longrightarrow> a \<le> k \<Longrightarrow> order_loop cfg pos env a result tr =
           order_loop cfg pos env k result (tr @ concat (map f [a..k - 1]))"
proof (induction "nat (k - a)" arbitrary: a tr)
  case 0
  then have "a = k" by simp
  then show ?case by simp
next
  case (Suc n)
  then have lt: "a < k" and le: "a \<le> MaxRetries cfg" using assms(2) by linarith+
  have body: "attempt_body cfg pos (env a) a result tr = Continue (tr @ f a)"
    using assms(1) [of a tr] lt Suc.prems by simp
  have up: "[a..k - 1] = a # [a + 1..k - 1]"
    using lt by (simp add: upto_rec1)
  have "order_loop cfg pos env a result tr = order_loop cfg pos env (a + 1) result (tr @ f a)"
    using le body by (subst order_loop_unfold) simp
  also have "\<dots> = order_loop cfg pos env k result ((tr @ f a) @ concat (map f [a + 1..k - 1]))"
    using Suc.hyps(2) lt Suc.prems
    by (intro Suc.hyps(1)) auto
  finally show ?case by (simp add: up)
qed

lemma order_loop_continues:
  assumes "\<And>j tr. a \<le> j \<Longrightarrow> j < k \<Longrightarrow>
             attempt_body cfg pos (env j) j result tr = Continue (tr @ f j)"
    and "k \<le> MaxRetries cfg + 1" and "a \<le> k"
  shows "order_loop cfg pos env a result tr =
           order_loop cfg pos env k result (tr @ concat (map f [a..k - 1]))"
  using order_loop_continues_from [of a k cfg pos env result f a tr] assms by simp

lemma order_loop_exhausted:
  "MaxRetries cfg < a \<Longrightarrow>
   order_loop cfg pos env a result tr = Returned (result\<lparr>Error := retry_limit_error cfg\<rparr>) tr"
  by (subst order_loop_unfold) simp

lemma attempt_body_zero_fill:
  "zero_fill pos e j \<Longrightarrow> attempt_body cfg pos e j result tr = Continue (tr @ zero_trace cfg e j)"
  by (auto simp: zero_fill_def polls_def fill_def attempt_body_def zero_trace_def poll_trace_def idA_def
      idB_def matchedA_def matchedB_def Let_def split: option.splits)

lemma attempt_body_fill:
  "polls e j \<Longrightarrow> fill pos e \<Longrightarrow>
   attempt_body cfg pos e j result tr =
     Stop (Returned (result\<lparr>Success := True, FilledA := matchedA e, FilledB := matchedB e\<rparr>)
            (tr @ poll_trace cfg e j))"
  by (auto simp: polls_def fill_def attempt_body_def poll_trace_def idA_def
      idB_def matchedA_def matchedB_def Let_def split: option.splits)

lemma attempt_body_submit_fails:
  "submit_fails e j \<Longrightarrow> attempt_body cfg pos e j result tr = Continue (tr @ submit_trace cfg j)"
  by (auto simp: submit_fails_def attempt_body_def submit_trace_def Let_def split: option.splits)

lemma fmt_d_in_retry_limit_error: "sublist (fmt_d (MaxRetries cfg)) (retry_limit_error cfg)"
  unfolding retry_limit_error_def sublist_def by blast

text \<open>
  C5. If the attempts before attempt \<open>k\<close> each polled two zero matched sizes and attempt
  \<open>k\<close> (within the retry limit) polls a matched size above zero on either leg, the run
  returns success with both legs' matched-size strings as polled; the trace is the earlier
  attempts, each ending in the two cancels, followed by attempt \<open>k\<close> up to its two polls,
  with no cancel after them. If every attempt up to the retry limit polls two zero matched
  sizes, each attempt cancels both orders, and the run returns a failure whose error text
  is the retry-limit message, which contains the decimal retry limit.
\<close>

theorem fill_returns_zero_fill_retries:
  "(1 \<le> k \<and> k \<le> MaxRetries cfg \<and> (\<forall>j. 1 \<le> j \<and> j < k \<longrightarrow> zero_fill pos (env j) j)
      \<and> polls (env k) k \<and> fill pos (env k)
    \<longrightarrow> run_orders cfg pos env i =
          Returned \<lparr>Index = i, Success = True, FilledA = matchedA (env k),
                    FilledB = matchedB (env k), Error = []\<rparr>
            (concat (map (\<lambda>j. zero_trace cfg (env j) j) [1..k - 1]) @ poll_trace cfg (env k) k))
   \<and> ((\<forall>j. 1 \<le> j \<and> j \<le> MaxRetries cfg \<longrightarrow> zero_fill pos (env j) j)
    \<longrightarrow> run_orders cfg pos env i =
          Returned \<lparr>Index = i, Success = False, FilledA = [], FilledB = [],
                    Error = retry_limit_error cfg\<rparr>
            (concat (map (\<lambda>j. zero_trace cfg (env j) j) [1..MaxRetries cfg]))
        \<and> sublist (fmt_d (MaxRetries cfg)) (retry_limit_error cfg))"
proof (intro conjI impI)
  assume h: "1 \<le> k \<and> k \<le> MaxRetries cfg \<and> (\<forall>j. 1 \<le> j \<and> j < k \<longrightarrow> zero_fill pos (env j) j)
      \<and> polls (env k) k \<and> fill pos (env k)"
  let ?f = "\<lambda>j. zero_trace cfg (env j) j"
  have "order_loop cfg pos env 1 (new_Result i) [] =
          order_loop cfg pos env k (new_Result i) ([] @ concat (map ?f [1..k - 1]))"
    using h by (intro order_loop_continues) (auto simp: attempt_body_zero_fill)
  also have "\<dots> = Returned ((new_Result i)\<lparr>Success := True, FilledA := matchedA (env k),
                                 FilledB := matchedB (env k)\<rparr>)
                      (concat (map ?f [1..k - 1]) @ poll_trace cfg (env k) k)"
    using h by (subst order_loop_unfold) (simp add: attempt_body_fill)
  finally show "run_orders cfg pos env i =
          Returned \<lparr>Index = i, Success = True, FilledA = matchedA (env k),
                    FilledB = matchedB (env k), Error = []\<rparr>
            (concat (map ?f [1..k - 1]) @ poll_trace cfg (env k) k)"
    by (simp add: run_orders_def new_Result_def)
next
  assume h: "\<forall>j. 1 \<le> j \<and> j \<le> MaxRetries cfg \<longrightarrow> zero_fill pos (env j) j"
  let ?f = "\<lambda>j. zero_trace cfg (env j) j"
  show "run_orders cfg pos env i =
          Returned \<lparr>Index = i, Success = False, FilledA = [], FilledB = [],
                    Error = retry_limit_error cfg\<rparr>
            (concat (map ?f [1..MaxRetries cfg]))"
  proof (cases "1 \<le> MaxRetries cfg + 1")
    case True
    have "order_loop cfg pos env 1 (new_Result i) [] =
            order_loop cfg pos env (MaxRetries cfg + 1) (new_Result i)
              ([] @ concat (map ?f [1..MaxRetries cfg + 1 - 1]))"
      using h True by (intro order_loop_continues) (auto simp: attempt_body_zero_fill)
    then show ?thesis
      by (simp add: run_orders_def order_loop_exhausted new_Result_def)
  next
    case False
    then show ?thesis
      by (simp add: run_orders_def order_loop_exhausted new_Result_def)
  qed
next
  show "sublist (fmt_d (MaxRetries cfg)) (retry_limit_error cfg)"
    by (rule fmt_d_in_retry_limit_error)
qed

theorem fill_returns_zero_fill_retries_witness:
  "run_orders \<lparr>MaxRetries = 2, RetryDelaySec = 0\<rparr> not_zero
      (\<lambda>j. if j = 1 then scenario_polled ''0'' else scenario_polled ''10'') 7 =
     Returned \<lparr>Index = 7, Success = True, FilledA = ''10'', FilledB = ''0'', Error = []\<rparr>
       [EvPost LegA, EvPost LegB, EvSleep 3,
        EvGetOrder LegA ''0x0123456789abcdef'', EvGetOrder LegB ''0xfedcba9876543210'',
        EvCancel LegA ''0x0123456789abcdef'', EvCancel LegB ''0xfedcba9876543210'',
        EvSleep 3, EvPost LegA, EvPost LegB, EvSleep 3,
        EvGetOrder LegA ''0x0123456789abcdef'', EvGetOrder LegB ''0xfedcba9876543210'']
   \<and> run_orders \<lparr>MaxRetries = 1, RetryDelaySec = 0\<rparr> not_zero (\<lambda>j. scenario_polled ''0'') 7 =
     Returned \<lparr>Index = 7, Success = False, FilledA = [], FilledB = [],
               Error = retry_text_before @ ''1'' @ retry_text_after\<rparr>
       [EvPost LegA, EvPost LegB, EvSleep 3,
        EvGetOrder LegA ''0x0123456789abcdef'', EvGetOrder LegB ''0xfedcba9876543210'',
        EvCancel LegA ''0x0123456789abcdef'', EvCancel LegB ''0xfedcba9876543210'']
   \<and> sublist ''1'' (retry_text_before @ ''1'' @ retry_text_after)"
proof -
  let ?env = "\<lambda>j::int. if j = 1 then scenario_polled ''0'' else scenario_polled ''10''"
  let ?c2 = "\<lparr>MaxRetries = 2, RetryDelaySec = 0\<rparr>"
  let ?c1 = "\<lparr>MaxRetries = 1, RetryDelaySec = 0\<rparr>"
  have z: "zero_fill not_zero (scenario_polled ''0'') j" for j
    by (simp add: zero_fill_def polls_def scenario_polled_def not_zero_def matchedA_def matchedB_def)
  have p: "polls (scenario_polled ''10'') 2 \<and> fill not_zero (scenario_polled ''10'')"
    by (simp add: fill_def polls_def scenario_polled_def not_zero_def matchedA_def matchedB_def)
  have h1: "\<forall>j. 1 \<le> j \<and> j < 2 \<longrightarrow> zero_fill not_zero (?env j) j"
    using z by simp
  have h2: "\<forall>j. 1 \<le> j \<and> j \<le> MaxRetries ?c1 \<longrightarrow> zero_fill not_zero (scenario_polled ''0'') j"
    using z by simp
  have u: "[1..2 - 1] = [1::int]" "[1..1] = [1::int]"
    by (simp_all add: upto_rec1)
  have a: "run_orders ?c2 not_zero ?env 7 =
      Returned \<lparr>Index = 7, Success = True, FilledA = matchedA (?env 2),
                FilledB = matchedB (?env 2), Error = []\<rparr>
        (concat (map (\<lambda>j. zero_trace ?c2 (?env j) j) [1..2 - 1]) @ poll_trace ?c2 (?env 2) 2)"
    using fill_returns_zero_fill_retries [of 2 ?c2 not_zero ?env 7] h1 p by simp
  have b: "run_orders ?c1 not_zero (\<lambda>j. scenario_polled ''0'') 7 =
      Returned \<lparr>Index = 7, Success = False, FilledA = [], FilledB = [],
                Error = retry_limit_error ?c1\<rparr>
        (concat (map (\<lambda>j. zero_trace ?c1 (scenario_polled ''0'') j) [1..MaxRetries ?c1]))
      \<and> sublist (fmt_d (MaxRetries ?c1)) (retry_limit_error ?c1)"
    using fill_returns_zero_fill_retries [of 1 ?c1 not_zero "\<lambda>j. scenario_polled ''0''" 7] h2 by blast
  have f: "fmt_d 1 = ''1''" by code_simp
  show ?thesis
    using a b
    by (simp add: u zero_trace_def poll_trace_def idA_def idB_def matchedA_def matchedB_def
        scenario_polled_def GetRetryDelay_def retry_limit_error_def f)
qed

text \<open>
  C6 (the claim fails). With a retry limit of 1, a run in which the order of leg A is
  placed and the submission of leg B fails returns the same \<^verbatim>\<open>Result\<close>, field for field,
  as a run in which both submissions fail: no success, no filled sizes and the retry-limit
  text. Both submissions were issued and the placed order is neither polled nor cancelled.
\<close>

theorem one_leg_placed_not_reported:
  "run_orders \<lparr>MaxRetries = 1, RetryDelaySec = 3\<rparr> not_zero (\<lambda>j. scenario_A_placed_B_failed) 7 =
     Returned \<lparr>Index = 7, Success = False, FilledA = [], FilledB = [],
               Error = retry_text_before @ ''1'' @ retry_text_after\<rparr>
       [EvPost LegA, EvPost LegB]
   \<and> run_orders \<lparr>MaxRetries = 1, RetryDelaySec = 3\<rparr> not_zero (\<lambda>j. scenario_both_failed) 7 =
     Returned \<lparr>Index = 7, Success = False, FilledA = [], FilledB = [],
               Error = retry_text_before @ ''1'' @ retry_text_after\<rparr>
       [EvPost LegA, EvPost LegB]"
proof -
  have f: "fmt_d 1 = ''1''" by code_simp
  have 2: "order_loop \<lparr>MaxRetries = 1, RetryDelaySec = 3\<rparr> not_zero env 2 r tr =
             Returned (r\<lparr>Error := retry_text_before @ ''1'' @ retry_text_after\<rparr>) tr" for env r tr
    by (subst order_loop_unfold) (simp add: retry_limit_error_def f)
  show ?thesis
    unfolding run_orders_def
    by (subst order_loop_unfold, simp add: attempt_body_def scenario_A_placed_B_failed_def
          scenario_both_failed_def new_Result_def 2)+
qed

text \<open>
  C6 (as amended). An attempt in which at least one submission fails has issued both
  submissions, polls and cancels nothing, leaves the \<^verbatim>\<open>Result\<close> as it was and goes on to
  the next attempt. A run whose every attempt ends so returns no success, no filled sizes
  and the retry-limit text, whichever leg was placed.
\<close>

theorem failed_submission_only_retries:
  "(submit_fails e j \<longrightarrow>
      attempt_body cfg pos e j result tr = Continue (tr @ submit_trace cfg j))
   \<and> ((\<forall>j. 1 \<le> j \<and> j \<le> MaxRetries cfg \<longrightarrow> submit_fails (env j) j) \<longrightarrow>
        run_orders cfg pos env i =
          Returned \<lparr>Index = i, Success = False, FilledA = [], FilledB = [],
                    Error = retry_limit_error cfg\<rparr>
            (concat (map (submit_trace cfg) [1..MaxRetries cfg])))"
proof (intro conjI impI)
  assume "submit_fails e j"
  then show "attempt_body cfg pos e j result tr = Continue (tr @ submit_trace cfg j)"
    by (rule attempt_body_submit_fails)
next
  assume h: "\<forall>j. 1 \<le> j \<and> j \<le> MaxRetries cfg \<longrightarrow> submit_fails (env j) j"
  show "run_orders cfg pos env i =
          Returned \<lparr>Index = i, Success = False, FilledA = [], FilledB = [],
                    Error = retry_limit_error cfg\<rparr>
            (concat (map (submit_trace cfg) [1..MaxRetries cfg]))"
  proof (cases "1 \<le> MaxRetries cfg + 1")
    case True
    have "order_loop cfg pos env 1 (new_Result i) [] =
            order_loop cfg pos env (MaxRetries cfg + 1) (new_Result i)
              ([] @ concat (map (submit_trace cfg) [1..MaxRetries cfg + 1 - 1]))"
      using h True by (intro order_loop_continues) (auto simp: attempt_body_submit_fails)
    then show ?thesis
      by (simp add: run_orders_def order_loop_exhausted new_Result_def)
  next
    case False
    then show ?thesis
      by (simp add: run_orders_def order_loop_exhausted new_Result_def)
  qed
qed

theorem failed_submission_only_retries_witness:
  "submit_fails scenario_A_placed_B_failed 1
   \<and> attempt_body \<lparr>MaxRetries = 2, RetryDelaySec = 5\<rparr> not_zero scenario_A_placed_B_failed 1
        (new_Result 7) [] = Continue [EvPost LegA, EvPost LegB]
   \<and> run_orders \<lparr>MaxRetries = 2, RetryDelaySec = 5\<rparr> not_zero (\<lambda>j. scenario_A_placed_B_failed) 7 =
       Returned \<lparr>Index = 7, Success = False, FilledA = [], FilledB = [],
                 Error = retry_text_before @ ''2'' @ retry_text_after\<rparr>
         [EvPost LegA, EvPost LegB, EvSleep 5, EvPost LegA, EvPost LegB]"
proof -
  let ?c = "\<lparr>MaxRetries = 2, RetryDelaySec = 5\<rparr>"
  have s: "submit_fails scenario_A_placed_B_failed j" for j
    by (simp add: submit_fails_def scenario_A_placed_B_failed_def)
  have h: "\<forall>j. 1 \<le> j \<and> j \<le> MaxRetries ?c \<longrightarrow> submit_fails scenario_A_placed_B_failed j"
    using s by simp
  have u: "[1..2] = [1, 2::int]"
    by (simp add: upto_rec1)
  have f: "fmt_d 2 = ''2''" by code_simp
  have t: "attempt_body ?c not_zero scenario_A_placed_B_failed 1 (new_Result 7) []
             = Continue ([] @ submit_trace ?c 1)
           \<and> run_orders ?c not_zero (\<lambda>j. scenario_A_placed_B_failed) 7 =
          Returned \<lparr>Index = 7, Success = False, FilledA = [], FilledB = [],
                    Error = retry_limit_error ?c\<rparr>
            (concat (map (submit_trace ?c) [1..MaxRetries ?c]))"
    using failed_submission_only_retries
            [of scenario_A_placed_B_failed 1 ?c not_zero "new_Result 7" "[]"
                "\<lambda>j. scenario_A_placed_B_failed" 7] s h by blast
  show ?thesis
    using t s by (simp add: u f submit_trace_def GetRetryDelay_def retry_limit_error_def)
qed

section \<open>Properties of the order amounts\<close>

text \<open>
  C2 (the claim fails). The double nearest to 0.9999999 is a non-negative amount whose
  product with \<open>10\<^sup>6\<close> has floor 999999, and \<^verbatim>\<open>toUnits\<close> returns 1000000: the
  \<^verbatim>\<open>%.6f\<close> formatting has already rounded the seventh decimal up.
\<close>

theorem toUnits_exceeds_floor:
  "0 \<le> f64 (9999999 / 10000000)
   \<and> toUnits_string (f64 (9999999 / 10000000)) = ''1000000''
   \<and> toUnits (f64 (9999999 / 10000000)) = 1000000
   \<and> \<lfloor>f64 (9999999 / 10000000) * 10 ^ 6\<rfloor> = 999999"
proof -
  have v: "f64 (9999999 / 10000000) = 9007198354021067 / 9007199254740992"
    by code_simp
  have s: "toUnits_string (9007198354021067 / 9007199254740992) = ''1000000''"
    by code_simp
  have u: "toUnits (9007198354021067 / 9007199254740992) = 1000000"
    by (simp add: toUnits_def s big_SetString_def parse_unsigned_def digit_val_def)
  have f: "\<lfloor>(9007198354021067 / 9007199254740992 :: rat) * 10 ^ 6\<rfloor> = 999999"
    by code_simp
  have n: "(0::rat) \<le> 9007198354021067 / 9007199254740992"
    by simp
  show ?thesis
    unfolding v using s u f n by blast
qed

text \<open>
  C2 (as amended). For every non-negative amount, \<^verbatim>\<open>toUnits\<close> returns the amount times
  \<open>10\<^sup>6\<close> rounded to the nearest integer, ties to even: it is at most one half away from
  the product, never below its floor and at most one above it.
\<close>

theorem toUnits_rounds_to_nearest:
  "0 \<le> v \<Longrightarrow>
   toUnits v = round_half_even (v * 10 ^ 6)
   \<and> \<bar>of_int (toUnits v) - v * 10 ^ 6\<bar> \<le> 1 / 2
   \<and> \<lfloor>v * 10 ^ 6\<rfloor> \<le> toUnits v \<and> toUnits v \<le> \<lfloor>v * 10 ^ 6\<rfloor> + 1"
proof -
  assume v: "0 \<le> v"
  define x where "x = v * 10 ^ 6"
  have t: "toUnits v = round_half_even x"
    using v by (simp add: toUnits_eq x_def)
  have b: "of_int (round_half_even x) - 1 / 2 \<le> x" "x \<le> of_int (round_half_even x) + 1 / 2"
    using round_half_even_bounds [of x] by simp_all
  have f: "\<lfloor>x\<rfloor> \<le> round_half_even x" "round_half_even x \<le> \<lfloor>x\<rfloor> + 1"
    by (auto simp: round_half_even_def Let_def)
  have a: "\<bar>of_int (round_half_even x) - x\<bar> \<le> 1 / 2"
    using b by linarith
  show ?thesis
    unfolding x_def [symmetric] t using a f by simp
qed

theorem toUnits_rounds_to_nearest_witness:
  "(0::rat) \<le> 3 / 128 \<and> toUnits (3 / 128) = 23438 \<and> round_half_even (3 / 128 * 10 ^ 6) = 23438
   \<and> \<lfloor>(3 / 128 :: rat) * 10 ^ 6\<rfloor> = 23437"
proof -
  have r: "round_half_even (3 / 128 * 10 ^ 6) = 23438"
    by code_simp
  have f: "\<lfloor>(3 / 128 :: rat) * 10 ^ 6\<rfloor> = 23437"
    by code_simp
  have n: "(0::rat) \<le> 3 / 128"
    by simp
  show ?thesis
    using toUnits_rounds_to_nearest [OF n] r f n by presburger
qed




section \<open>Properties of building a signed order\<close>

lemma order_to_sign_amounts:
  "so_MakerAmount (order_to_sign salt now b order opts) =
     fmt_d (fst (calculateOrderAmounts (uo_Side order) (uo_Size order) (uo_Price order)
                   (opt_TickSize opts)))"
  "so_TakerAmount (order_to_sign salt now b order opts) =
     fmt_d (snd (calculateOrderAmounts (uo_Side order) (uo_Size order) (uo_Price order)
                   (opt_TickSize opts)))"
  by (simp_all add: order_to_sign_def Let_def case_prod_beta)

lemma fmt_d_1800000000: "fmt_d 1800000000 = ''1800000000''"
  by code_simp

lemma BuildOrder_scenario:
  assumes "calculateOrderAmounts SideBuy sz price TickSize001 = (m, t)"
  shows "BuildOrder scenario_crypto ''77'' 1790000000 scenario_builder (scenario_order sz price)
           \<lparr>opt_TickSize = TickSize001, opt_NegRisk = neg\<rparr>
         = Inr (scenario_signed (fmt_d m) (fmt_d t))"
proof -
  have s: "SideBuy \<noteq> SideSell" by (simp add: SideBuy_def SideSell_def)
  have z: "fmt_d 0 = ''0''" by code_simp
  show ?thesis
    using s assms
    by (simp add: BuildOrder_def order_to_sign_def scenario_crypto_def scenario_signed_def
        scenario_builder_def scenario_order_def NewOrderBuilder_def zero_address_def Let_def
        fmt_d_1800000000 z)
qed

text \<open>
  C3 (the claim fails). With tick size 0.01, a BUY of size 0.001 at price 0.5 has its
  size truncated to 0, a BUY of size 10 at price 0.004 has its price rounded to 0, and a
  BUY of size -3.257 at price 0.5 has negative amounts. In all three cases
  \<^verbatim>\<open>BuildOrder\<close> returns a signed order, carrying the amounts \<^verbatim>\<open>"0"\<close> or negative
  amounts, and no error.
\<close>

theorem BuildOrder_signs_zero_amounts:
  "calculateOrderAmounts SideBuy (f64 (1 / 1000)) (1 / 2) TickSize001 = (0, 0)
   \<and> BuildOrder scenario_crypto ''77'' 1790000000 scenario_builder
        (scenario_order (f64 (1 / 1000)) (1 / 2)) \<lparr>opt_TickSize = TickSize001, opt_NegRisk = False\<rparr>
      = Inr (scenario_signed ''0'' ''0'')
   \<and> calculateOrderAmounts SideBuy 10 (f64 (4 / 1000)) TickSize001 = (0, 10000000)
   \<and> BuildOrder scenario_crypto ''77'' 1790000000 scenario_builder
        (scenario_order 10 (f64 (4 / 1000))) \<lparr>opt_TickSize = TickSize001, opt_NegRisk = False\<rparr>
      = Inr (scenario_signed ''0'' ''10000000'')
   \<and> calculateOrderAmounts SideBuy (f64 (- 3257 / 1000)) (1 / 2) TickSize001 = (- 1625000, - 3250000)
   \<and> BuildOrder scenario_crypto ''77'' 1790000000 scenario_builder
        (scenario_order (f64 (- 3257 / 1000)) (1 / 2)) \<lparr>opt_TickSize = TickSize001, opt_NegRisk = False\<rparr>
      = Inr (scenario_signed ''-1625000'' ''-3250000'')"
proof -
  have a: "calculateOrderAmounts SideBuy (f64 (1 / 1000)) (1 / 2) TickSize001 = (0, 0)"
    by code_simp
  have b: "calculateOrderAmounts SideBuy 10 (f64 (4 / 1000)) TickSize001 = (0, 10000000)"
    by code_simp
  have c: "calculateOrderAmounts SideBuy (f64 (- 3257 / 1000)) (1 / 2) TickSize001
             = (- 1625000, - 3250000)"
    by code_simp
  have d: "fmt_d 0 = ''0''" "fmt_d 10000000 = ''10000000''"
    "fmt_d (- 1625000) = ''-1625000''" "fmt_d (- 3250000) = ''-3250000''"
    by code_simp+
  show ?thesis
    using a b c BuildOrder_scenario [OF a] BuildOrder_scenario [OF b] BuildOrder_scenario [OF c]
    unfolding d by blast
qed

text \<open>
  C3 (as amended). \<^verbatim>\<open>BuildOrder\<close> validates no amount. It fails exactly when signing
  the order fails, with the signing error wrapped as \<^verbatim>\<open>sign order: ...\<close>; otherwise it
  returns the signed order, whose maker and taker amounts are the computed amounts in
  decimal, whatever their value. The private key is parsed before any order is built,
  when the client and its order builder are made: \<^verbatim>\<open>NewClient\<close> fails exactly when the
  key does not parse, with the error wrapped as \<^verbatim>\<open>parse private key: ...\<close>.
\<close>

theorem BuildOrder_fails_only_on_signing:
  "(BuildOrder cr salt now b order opts = Inl e \<longleftrightarrow>
      (\<exists>err. signOrder cr b (order_to_sign salt now b order opts) (exchange_for opts) = Inl err
             \<and> e = ''sign order: '' @ err))
   \<and> (BuildOrder cr salt now b order opts = Inr so \<longrightarrow>
        so_MakerAmount so =
          fmt_d (fst (calculateOrderAmounts (uo_Side order) (uo_Size order) (uo_Price order)
                        (opt_TickSize opts)))
        \<and> so_TakerAmount so =
          fmt_d (snd (calculateOrderAmounts (uo_Side order) (uo_Size order) (uo_Price order)
                        (opt_TickSize opts))))
   \<and> (NewClient_orderBuilder cr cfg = Inl e' \<longleftrightarrow>
        (\<exists>err. HexToECDSA cr (TrimPrefix (cc_PrivateKey cfg) ''0x'') = Inl err
               \<and> e' = ''parse private key: '' @ err))"
proof (intro conjI)
  show "BuildOrder cr salt now b order opts = Inl e \<longleftrightarrow>
      (\<exists>err. signOrder cr b (order_to_sign salt now b order opts) (exchange_for opts) = Inl err
             \<and> e = ''sign order: '' @ err)"
    by (auto simp: BuildOrder_def Let_def split: sum.splits)
  show "BuildOrder cr salt now b order opts = Inr so \<longrightarrow>
        so_MakerAmount so =
          fmt_d (fst (calculateOrderAmounts (uo_Side order) (uo_Size order) (uo_Price order)
                        (opt_TickSize opts)))
        \<and> so_TakerAmount so =
          fmt_d (snd (calculateOrderAmounts (uo_Side order) (uo_Size order) (uo_Price order)
                        (opt_TickSize opts)))"
  proof
    assume "BuildOrder cr salt now b order opts = Inr so"
    then obtain sig where "so = (order_to_sign salt now b order opts)\<lparr>so_Signature := sig\<rparr>"
      by (auto simp: BuildOrder_def Let_def split: sum.splits)
    then show "so_MakerAmount so =
          fmt_d (fst (calculateOrderAmounts (uo_Side order) (uo_Size order) (uo_Price order)
                        (opt_TickSize opts)))
        \<and> so_TakerAmount so =
          fmt_d (snd (calculateOrderAmounts (uo_Side order) (uo_Size order) (uo_Price order)
                        (opt_TickSize opts)))"
      by (simp add: order_to_sign_amounts)
  qed
  show "NewClient_orderBuilder cr cfg = Inl e' \<longleftrightarrow>
        (\<exists>err. HexToECDSA cr (TrimPrefix (cc_PrivateKey cfg) ''0x'') = Inl err
               \<and> e' = ''parse private key: '' @ err)"
    by (auto simp: NewClient_orderBuilder_def Let_def split: sum.splits)
qed

theorem BuildOrder_fails_only_on_signing_witness:
  "NewClient_orderBuilder scenario_crypto
      \<lparr>cc_PrivateKey = ''0x'', cc_ChainID = 0, cc_Funder = [], cc_SignatureType = 2\<rparr>
     = Inl ''parse private key: invalid length, need 256 bits''
   \<and> BuildOrder (scenario_crypto\<lparr>signOrder := \<lambda>b order exchange. Inl ''sign: invalid key''\<rparr>)
        ''77'' 1790000000 scenario_builder (scenario_order 10 (1 / 2))
        \<lparr>opt_TickSize = TickSize001, opt_NegRisk = True\<rparr>
     = Inl ''sign order: sign: invalid key''
   \<and> (\<exists>so. BuildOrder scenario_crypto ''77'' 1790000000 scenario_builder (scenario_order 10 (1 / 2))
        \<lparr>opt_TickSize = TickSize001, opt_NegRisk = True\<rparr> = Inr so
        \<and> so_MakerAmount so = ''5000000'' \<and> so_TakerAmount so = ''10000000'')"
proof -
  let ?cfg = "\<lparr>cc_PrivateKey = ''0x'', cc_ChainID = 0, cc_Funder = [], cc_SignatureType = 2\<rparr>"
  let ?opts = "\<lparr>opt_TickSize = TickSize001, opt_NegRisk = True\<rparr>"
  let ?bad = "scenario_crypto\<lparr>signOrder := \<lambda>b order exchange. Inl ''sign: invalid key''\<rparr>"
  let ?order = "scenario_order 10 (1 / 2)"
  have k: "HexToECDSA scenario_crypto (TrimPrefix (cc_PrivateKey ?cfg) ''0x'')
             = Inl ''invalid length, need 256 bits''"
    by (simp add: scenario_crypto_def TrimPrefix_def)
  have 1: "NewClient_orderBuilder scenario_crypto ?cfg
             = Inl (''parse private key: '' @ ''invalid length, need 256 bits'')"
    using BuildOrder_fails_only_on_signing
            [of scenario_crypto "[]" 0 scenario_builder ?order ?opts "[]" undefined ?cfg
                "''parse private key: '' @ ''invalid length, need 256 bits''"] k
    by blast
  have s: "signOrder ?bad scenario_builder (order_to_sign ''77'' 1790000000 scenario_builder ?order ?opts)
             (exchange_for ?opts) = Inl ''sign: invalid key''"
    by (simp add: scenario_crypto_def)
  have 2: "BuildOrder ?bad ''77'' 1790000000 scenario_builder ?order ?opts
             = Inl (''sign order: '' @ ''sign: invalid key'')"
    using BuildOrder_fails_only_on_signing
            [of ?bad "''77''" 1790000000 scenario_builder ?order ?opts
                "''sign order: '' @ ''sign: invalid key''" undefined ?cfg "[]"] s
    by blast
  have am: "calculateOrderAmounts SideBuy 10 (1 / 2) TickSize001 = (5000000, 10000000)"
    by code_simp
  have d: "fmt_d 5000000 = ''5000000''" "fmt_d 10000000 = ''10000000''"
    by code_simp+
  obtain so where so: "BuildOrder scenario_crypto ''77'' 1790000000 scenario_builder ?order ?opts = Inr so"
    by (simp add: BuildOrder_def scenario_crypto_def)
  have 3: "so_MakerAmount so = ''5000000'' \<and> so_TakerAmount so = ''10000000''"
    using BuildOrder_fails_only_on_signing
            [of scenario_crypto "''77''" 1790000000 scenario_builder ?order ?opts "[]" so ?cfg "[]"] so
    by (simp add: scenario_order_def am d)
  show ?thesis
    using 1 2 so 3 by auto
qed

section \<open>Properties of the leg prices\<close>










end
